theory Spec2Isabelle
  imports Main "HOL-Library.Word"
begin

section \<open>Data model\<close>

text \<open>
  The staker daemon (package \<open>staker\<close>, file \<open>stakerapp.go\<close>) and its command line
  service client (package \<open>service\<close>).  Values of foreign packages that the code only
  passes around (keys, signatures, blocks, scripts) are kept abstract.
\<close>

type_synonym Hash = nat             \<comment> \<open>\<open>chainhash.Hash\<close>\<close>
type_synonym Amount = "64 word"     \<comment> \<open>\<open>btcutil.Amount\<close>, an \<open>int64\<close>: compared as a signed value\<close>
type_synonym bytes = "8 word list"  \<comment> \<open>\<open>[]byte\<close>\<close>
type_synonym Address = string       \<comment> \<open>\<open>btcutil.Address\<close>\<close>
type_synonym PrivateKey = nat       \<comment> \<open>\<open>*btcec.PrivateKey\<close>\<close>
type_synonym PublicKey = nat        \<comment> \<open>\<open>*btcec.PublicKey\<close>, \<open>*secp256k1.PubKey\<close>\<close>
type_synonym Signature = nat        \<comment> \<open>\<open>*schnorr.Signature\<close>\<close>
type_synonym BabylonPop = nat       \<comment> \<open>\<open>*cl.BabylonPop\<close>\<close>
type_synonym MsgBlock = nat         \<comment> \<open>\<open>*wire.MsgBlock\<close>\<close>
type_synonym ConfirmationEvent = nat  \<comment> \<open>\<open>*notifier.ConfirmationEvent\<close>\<close>

text \<open>
  Go errors.  \<open>Errorf fmt args\<close> is \<open>fmt.Errorf(fmt, args...)\<close> (or \<open>errors.New\<close>) with
  integer arguments, \<open>ErrorfW fmt e\<close> wraps \<open>e\<close> through \<open>%w\<close>, and \<open>ErrExternal\<close> is an error
  value produced by a collaborator.
\<close>

datatype error =
    ErrExternal string
  | Errorf string "int list"
  | ErrorfW string error
  | ErrDelegationNotFound
  | ErrTransactionNotFound
  | ErrInvalidStateTransition
  | ErrDuplicateKey

fun errorsIs :: "error \<Rightarrow> error \<Rightarrow> bool" where
  "errorsIs (ErrorfW f e) target = (ErrorfW f e = target \<or> errorsIs e target)"
| "errorsIs e target = (e = target)"

text \<open>
  What a Go function with results \<open>(v, err)\<close> hands to its caller:
  \<open>(nil, nil)\<close>, \<open>(nil, err)\<close> or \<open>(v, nil)\<close>; \<open>NoReturn\<close> when the process is stopped
  inside the call (\<open>logger.Fatal\<close>, a run-time panic) and the caller gets nothing.
\<close>

datatype 'a ret = RetNil | RetErr error | RetVal 'a | NoReturn string

text \<open>How a procedure without a result value ends: it returns \<open>nil\<close>, returns an error, or
  stops the process (\<open>logger.Fatalf\<close>, a run-time panic).\<close>

datatype outcome = Done | Failed error | Fatal string

datatype TransactionState =
    SENT_TO_BTC
  | CONFIRMED_ON_BTC
  | SENT_TO_BABYLON
  | SPENT_ON_BTC
  | UNBONDING_STARTED
  | UNBONDING_SIGNATURES_RECEIVED
  | UNBONDING_CONFIRMED_ON_BTC
  | UNRECOGNIZED int

record TxOut =
  Value :: Amount
  PkScript :: bytes

record MsgTx =
  TxHash :: Hash
  TxOuts :: "TxOut list"

record UnbondingStoreData =
  UnbondingTx :: MsgTx
  UnbondingTxScript :: bytes

record StoredTransaction =
  StakingTx :: MsgTx
  StakingOutputIndex :: "32 word"
  TxScript :: bytes
  StakerAddress :: string
  Watched :: bool
  State :: TransactionState
  UnbondingTxData :: "UnbondingStoreData option"

record StakingParams =
  ConfirmationTimeBlocks :: "32 word"
  FinalizationTimeoutBlocks :: "32 word"
  MinSlashingTxFeeSat :: Amount
  JuryPk :: PublicKey
  SlashingAddress :: Address

datatype TxStatus = TxNotFound | TxInMemPool | TxInChain

record TxConfirmation =
  BlockHash :: Hash
  BlockHeight :: "32 word"
  TxIndex :: "32 word"
  Block :: MsgBlock

record UndelegationInfo =
  UnbondingTransaction :: MsgTx
  UnbondingTransactionScript :: bytes

record DelegationInfo =
  UndelegationInfoOf :: "UndelegationInfo option"

subsection \<open>Requests and events exchanged over the channels\<close>

record stakingTxBtcConfirmation =
  c_txHash :: Hash
  c_txIndex :: "32 word"
  c_blockDepth :: "32 word"
  c_blockHash :: Hash
  c_blockHeight :: "32 word"
  c_tx :: MsgTx
  c_inlusionBlock :: MsgBlock

record sendDelegationRequest =
  d_txHash :: Hash
  d_txIndex :: "32 word"
  d_inclusionBlock :: MsgBlock
  d_requiredInclusionBlockDepth :: "64 word"

record watchTxData =
  slashingTx :: MsgTx
  slashingTxSig :: Signature
  stakerBabylonPubKey :: PublicKey

record stakingRequest =
  r_stakerAddress :: Address
  r_stakingTx :: MsgTx
  r_stakingOutputIdx :: "32 word"
  r_stakingOutputPkScript :: bytes
  r_stakingTxScript :: bytes
  r_requiredDepthOnBtcChain :: "32 word"
  r_pop :: BabylonPop
  r_watchTxData :: "watchTxData option"

record unbondingRequestConfirm =
  u_stakingTxHash :: Hash
  u_unbondingTransaction :: MsgTx
  u_unbondingTransactionScript :: bytes

record unbondingSignaturesConfirmed =
  s_stakingTxHash :: Hash
  s_validatorUnbondingSignature :: Signature
  s_juryUnbondingSignature :: Signature

record unbondingTxBtcConfirmation =
  b_stakingTxHash :: Hash
  b_blockHash :: Hash
  b_blockHeight :: "32 word"

record UndelegationData =
  ud_UnbondingTransaction :: MsgTx
  ud_UnbondingTransactionScript :: bytes

record spendStakeTxInfo =
  spendStakeTx :: MsgTx
  fundingOutput :: TxOut
  fundingOutputScript :: bytes
  calculatedFee :: Amount

text \<open>Goroutines started with \<open>go\<close>, by the function they run and its arguments.\<close>

datatype goroutine =
    Go_waitForStakingTxConfirmation Hash "32 word" ConfirmationEvent
  | Go_waitForSpendConfirmation Hash ConfirmationEvent
  | Go_sendUnbondingTxToBtcAndWaitForConfirmation Hash Address
  | Go_waitForUnbondingTxConfirmationWithWg ConfirmationEvent Hash
  | Go_checkForUnbondingTxSignaturesOnBabylon Hash

text \<open>
  Everything a function does besides returning, in program order: calls to the wallet,
  the coordinator client, the notifier and the fee estimator, writes to the store, sends on
  the application's channels and on the two channels of a request, goroutines started, and
  error-level log records.
\<close>

datatype effect =
    Wallet_UnlockWallet nat
  | Wallet_DumpPrivateKey Address
  | Wallet_SendRawTransaction Hash
  | Wallet_CreateAndSignTx Amount Address
  | Wallet_TxDetails Hash bytes
  | Babylon_Params
  | Babylon_Sign
  | Babylon_ValidatorExists PublicKey
  | Babylon_IsTxAlreadyPartOfDelegation Hash
  | Babylon_QueryDelegationInfo Hash
  | Notifier_RegisterConfirmationsNtfn Hash bytes "32 word" "32 word"
  | Notifier_Cancel ConfirmationEvent
  | Estimate_FeePerKb
  | Store_Write Hash TransactionState
  | Send_stakingRequestChan stakingRequest
  | Send_confirmationEventChan stakingTxBtcConfirmation
  | Send_sendDelegationResponseChan Hash "error option"
  | Send_spendTxConfirmationChan Hash
  | Send_sendUnbondingRequestChan Hash UndelegationData
  | PushOrQuit_sendUnbondingRequestConfirmChan unbondingRequestConfirm
  | PushOrQuit_unbondingConfirmedOnBtcChan unbondingTxBtcConfirmation
  | Send_errChan error
  | Send_successChan Hash
  | Call_sendDelegationWithTxToBabylon sendDelegationRequest
  | Spawn goroutine
  | Sleep nat
  | Recv_quit
  | LogError string

subsection \<open>Collaborators\<close>

text \<open>
  The wallet, the coordinator client, the chain notifier and the library functions are
  interfaces to the daemon; each is given by what it answers.
\<close>

record WalletController =
  UnlockWallet :: "error option"
  DumpPrivateKey :: "Address \<Rightarrow> error + PrivateKey"
  SendRawTransaction :: "MsgTx \<Rightarrow> error + Hash"
  CreateAndSignTx :: "TxOut list \<Rightarrow> Amount \<Rightarrow> Address \<Rightarrow> error + MsgTx"
  TxDetails :: "Hash \<Rightarrow> bytes \<Rightarrow> error + (TxConfirmation option \<times> TxStatus)"

record BabylonClient =
  Params :: "error + StakingParams"
  Sign :: "bytes \<Rightarrow> error + bytes"
  GetPubKey :: PublicKey
  IsTxAlreadyPartOfDelegation :: "Hash \<Rightarrow> error + bool"
  QueryDelegationInfo :: "Hash \<Rightarrow> error + DelegationInfo"

record Libraries =
  validatorExists :: "PublicKey \<Rightarrow> error option"
  SerializePubKey :: "PrivateKey \<Rightarrow> bytes"
  schnorrSign :: "PrivateKey \<Rightarrow> bytes \<Rightarrow> error + Signature"
  NewBabylonPop :: "bytes \<Rightarrow> Signature \<Rightarrow> error + BabylonPop"
  BuildStakingOutput :: "PrivateKey \<Rightarrow> PublicKey \<Rightarrow> PublicKey \<Rightarrow> 16 word \<Rightarrow> Amount \<Rightarrow> error + (TxOut \<times> bytes)"
  DecodeAddress :: "string \<Rightarrow> error + Address"
  PayToAddrScript :: "Address \<Rightarrow> error + bytes"
  createSpendStakeTxFromStoredTx :: "StoredTransaction \<Rightarrow> bytes \<Rightarrow> 64 word \<Rightarrow> error + spendStakeTxInfo"
  BuildWitnessToSpendStakingOutput :: "spendStakeTxInfo \<Rightarrow> PrivateKey \<Rightarrow> error + bytes"
  ParseStakingTransactionScript :: "bytes \<Rightarrow> error + nat"
  createUndelegationData :: "StoredTransaction \<Rightarrow> PrivateKey \<Rightarrow> Amount \<Rightarrow> 16 word \<Rightarrow> Amount \<Rightarrow> error + UndelegationData"
  createWitnessToSendUnbondingTx :: "PrivateKey \<Rightarrow> StoredTransaction \<Rightarrow> UnbondingStoreData \<Rightarrow> error + bytes"
  parseWatchStakingRequest :: "MsgTx \<Rightarrow> bytes \<Rightarrow> MsgTx \<Rightarrow> Signature \<Rightarrow> PublicKey \<Rightarrow> Address \<Rightarrow> BabylonPop \<Rightarrow> StakingParams \<Rightarrow> error + (stakingRequest \<times> PublicKey)"

text \<open>
  The application.  \<open>quit\<close> says whether the quit channel is closed when the function at
  hand starts: it is what the non-blocking \<open>select\<close> at the head of a request operation
  sees.  \<open>txTracker\<close> holds the records of the store in scan order.
\<close>

record StakerApp =
  quit :: bool
  babylonClient :: BabylonClient
  wc :: WalletController
  RegisterConfirmationsNtfn :: "Hash \<Rightarrow> bytes \<Rightarrow> 32 word \<Rightarrow> 32 word \<Rightarrow> error + ConfirmationEvent"
  EstimateFeePerKb :: "64 word"
  lib :: Libraries
  txTracker :: "StoredTransaction list"
  currentBestBlockHeight :: "32 word"

section \<open>Constants\<close>

definition minSlashingFee :: Amount where
  "minSlashingFee = 1000"

definition SpendStakeTxConfirmations :: "32 word" where
  "SpendStakeTxConfirmations = 3"

definition nanosecond :: nat where "nanosecond = 1"
definition second :: nat where "second = 1000000000 * nanosecond"
definition hour :: nat where "hour = 3600 * second"

definition timeoutWaitingForSpendConfirmation :: nat where
  "timeoutWaitingForSpendConfirmation = 2 * hour"

definition defaultWalletUnlockTimeout :: nat where
  "defaultWalletUnlockTimeout = 15"

text \<open>\<open>txrules.DefaultRelayFeePerKb\<close> of btcwallet is \<open>btcutil.Amount(1e3)\<close>: 1 sat/byte.\<close>

definition MinFeePerKb :: Amount where
  "MinFeePerKb = 1000"

definition unbondingSendRetryTimeout :: nat where
  "unbondingSendRetryTimeout = 30 * second"

definition UnbondingTxConfirmations :: "32 word" where
  "UnbondingTxConfirmations = 6"

section \<open>Pure helpers\<close>

definition getSlashingFee :: "StakingParams \<Rightarrow> Amount" where
  "getSlashingFee p =
     (let feeFromBabylon = MinSlashingTxFeeSat p in
      if word_sless feeFromBabylon minSlashingFee then minSlashingFee else feeFromBabylon)"

definition GetMinStakingTime :: "StakingParams \<Rightarrow> 32 word" where
  "GetMinStakingTime p = 2 * FinalizationTimeoutBlocks p + ConfirmationTimeBlocks p"

section \<open>The tracked transaction store\<close>

text \<open>
  Modelled from the spec: the tracked transaction store (package \<open>stakerdb\<close>) is not part
  of the sources at hand.  Following the specification's section 4.1, there is one record
  per staking transaction hash, \<open>Get\<close> answers the record or not-found, \<open>Add\<close> inserts a
  record in state \<open>SentToBtc\<close> unless the key exists, and every typed transition checks the
  current state and fails with an invalid-state-transition error otherwise.
\<close>

definition GetTransaction :: "StoredTransaction list \<Rightarrow> Hash \<Rightarrow> error + StoredTransaction" where
  "GetTransaction st h =
     (case find (\<lambda>r. TxHash (StakingTx r) = h) st of
        None \<Rightarrow> Inl ErrTransactionNotFound
      | Some r \<Rightarrow> Inr r)"

definition addRecord :: "StoredTransaction list \<Rightarrow> StoredTransaction \<Rightarrow> error + StoredTransaction list" where
  "addRecord st r =
     (case find (\<lambda>x. TxHash (StakingTx x) = TxHash (StakingTx r)) st of
        Some x \<Rightarrow> Inl ErrDuplicateKey
      | None \<Rightarrow> Inr (st @ [r]))"

definition AddTransaction ::
  "StoredTransaction list \<Rightarrow> MsgTx \<Rightarrow> 32 word \<Rightarrow> bytes \<Rightarrow> Address \<Rightarrow> error + StoredTransaction list" where
  "AddTransaction st tx idx script addr =
     addRecord st \<lparr>StakingTx = tx, StakingOutputIndex = idx, TxScript = script,
       StakerAddress = addr, Watched = False, State = SENT_TO_BTC, UnbondingTxData = None\<rparr>"

definition AddWatchedTransaction ::
  "StoredTransaction list \<Rightarrow> MsgTx \<Rightarrow> 32 word \<Rightarrow> bytes \<Rightarrow> Address \<Rightarrow> error + StoredTransaction list" where
  "AddWatchedTransaction st tx idx script addr =
     addRecord st \<lparr>StakingTx = tx, StakingOutputIndex = idx, TxScript = script,
       StakerAddress = addr, Watched = True, State = SENT_TO_BTC, UnbondingTxData = None\<rparr>"

definition transition ::
  "TransactionState list \<Rightarrow> (StoredTransaction \<Rightarrow> StoredTransaction) \<Rightarrow> StoredTransaction list \<Rightarrow> Hash
     \<Rightarrow> error + StoredTransaction list" where
  "transition sources upd st h =
     (case GetTransaction st h of
        Inl err \<Rightarrow> Inl err
      | Inr r \<Rightarrow>
          if List.member sources (State r)
          then Inr (map (\<lambda>x. if TxHash (StakingTx x) = h then upd x else x) st)
          else Inl ErrInvalidStateTransition)"

definition SetTxConfirmed :: "StoredTransaction list \<Rightarrow> Hash \<Rightarrow> error + StoredTransaction list" where
  "SetTxConfirmed = transition [SENT_TO_BTC] (\<lambda>r. r\<lparr>State := CONFIRMED_ON_BTC\<rparr>)"

definition SetTxSentToBabylon :: "StoredTransaction list \<Rightarrow> Hash \<Rightarrow> error + StoredTransaction list" where
  "SetTxSentToBabylon = transition [CONFIRMED_ON_BTC] (\<lambda>r. r\<lparr>State := SENT_TO_BABYLON\<rparr>)"

definition SetTxUnbondingStarted ::
  "MsgTx \<Rightarrow> bytes \<Rightarrow> StoredTransaction list \<Rightarrow> Hash \<Rightarrow> error + StoredTransaction list" where
  "SetTxUnbondingStarted utx uscript =
     transition [SENT_TO_BABYLON] (\<lambda>r. r\<lparr>State := UNBONDING_STARTED,
        UnbondingTxData := Some \<lparr>UnbondingTx = utx, UnbondingTxScript = uscript\<rparr>\<rparr>)"

definition SetTxUnbondingSignaturesReceived :: "StoredTransaction list \<Rightarrow> Hash \<Rightarrow> error + StoredTransaction list" where
  "SetTxUnbondingSignaturesReceived =
     transition [UNBONDING_STARTED] (\<lambda>r. r\<lparr>State := UNBONDING_SIGNATURES_RECEIVED\<rparr>)"

definition SetTxUnbondingConfirmedOnBtc :: "StoredTransaction list \<Rightarrow> Hash \<Rightarrow> error + StoredTransaction list" where
  "SetTxUnbondingConfirmedOnBtc =
     transition [UNBONDING_SIGNATURES_RECEIVED] (\<lambda>r. r\<lparr>State := UNBONDING_CONFIRMED_ON_BTC\<rparr>)"

definition SetTxSpentOnBtc :: "StoredTransaction list \<Rightarrow> Hash \<Rightarrow> error + StoredTransaction list" where
  "SetTxSpentOnBtc =
     transition [SENT_TO_BABYLON, UNBONDING_CONFIRMED_ON_BTC] (\<lambda>r. r\<lparr>State := SPENT_ON_BTC\<rparr>)"

section \<open>Request constructors\<close>

text \<open>
  Modelled from the spec: the request types of the package are not part of the sources at
  hand.  A staking request is owned or watched (specification, section 2); a watched one
  carries the externally supplied slashing transaction, its signature and the staker's
  coordinator key, an owned one carries none.
\<close>

definition isWatched :: "stakingRequest \<Rightarrow> bool" where
  "isWatched req = (r_watchTxData req \<noteq> None)"

definition newOwnedStakingRequest ::
  "Address \<Rightarrow> MsgTx \<Rightarrow> 32 word \<Rightarrow> bytes \<Rightarrow> bytes \<Rightarrow> 32 word \<Rightarrow> BabylonPop \<Rightarrow> stakingRequest" where
  "newOwnedStakingRequest stakerAddress tx idx pkScript script depth pop =
     \<lparr>r_stakerAddress = stakerAddress, r_stakingTx = tx, r_stakingOutputIdx = idx,
      r_stakingOutputPkScript = pkScript, r_stakingTxScript = script,
      r_requiredDepthOnBtcChain = depth, r_pop = pop, r_watchTxData = None\<rparr>"

section \<open>Wallet key access\<close>

definition stakerPrivateKey :: "StakerApp \<Rightarrow> Address \<Rightarrow> effect list \<times> (error + PrivateKey)" where
  "stakerPrivateKey app stakerAddress =
     (case UnlockWallet (wc app) of
        Some err \<Rightarrow> ([Wallet_UnlockWallet defaultWalletUnlockTimeout], Inl err)
      | None \<Rightarrow>
         (case DumpPrivateKey (wc app) stakerAddress of
            Inl err \<Rightarrow>
              ([Wallet_UnlockWallet defaultWalletUnlockTimeout, Wallet_DumpPrivateKey stakerAddress], Inl err)
          | Inr privkey \<Rightarrow>
              ([Wallet_UnlockWallet defaultWalletUnlockTimeout, Wallet_DumpPrivateKey stakerAddress],
               Inr privkey)))"

text \<open>\<open>generatePop\<close>; the hash \<open>tmhash.Sum\<close> of the coordinator signature is taken inside
  \<open>schnorrSign\<close>.\<close>

definition generatePop :: "StakerApp \<Rightarrow> PrivateKey \<Rightarrow> effect list \<times> (error + BabylonPop)" where
  "generatePop app stakerPrivKey =
     (let encodedPubKey = SerializePubKey (lib app) stakerPrivKey in
      case Sign (babylonClient app) encodedPubKey of
        Inl err \<Rightarrow> ([Babylon_Sign], Inl err)
      | Inr babylonSig \<Rightarrow>
         (case schnorrSign (lib app) stakerPrivKey babylonSig of
            Inl err \<Rightarrow> ([Babylon_Sign], Inl err)
          | Inr btcSig \<Rightarrow>
             (case NewBabylonPop (lib app) babylonSig btcSig of
                Inl err \<Rightarrow> ([Babylon_Sign], Inl (ErrorfW ''failed to generate pop: %w'' err))
              | Inr pop \<Rightarrow> ([Babylon_Sign], Inr pop))))"

section \<open>Public request operations\<close>

text \<open>
  The last statement of \<open>StakeFunds\<close>, \<open>WatchStaking\<close> and \<open>UnbondStaking\<close> is a \<open>select\<close> over
  the request's error channel, its success channel and the quit channel.  Which case fires
  is decided by the engine and the scheduler; it is an argument of the model.  The send on
  the request channel before it is taken to complete: a caller that stays blocked in the
  send, because the engine has returned, is not covered.
\<close>

datatype 'a selected = Sel_errChan error | Sel_successChan 'a | Sel_quit

definition awaitReply :: "'a selected \<Rightarrow> 'a ret" where
  "awaitReply sel =
     (case sel of
        Sel_errChan reqErr \<Rightarrow> RetErr reqErr
      | Sel_successChan hash \<Rightarrow> RetVal hash
      | Sel_quit \<Rightarrow> RetNil)"

text \<open>\<open>StakeFunds\<close> from the wallet unlock on (the statements after the two argument checks).\<close>

definition StakeFunds_build ::
  "StakerApp \<Rightarrow> Hash selected \<Rightarrow> StakingParams \<Rightarrow> Address \<Rightarrow> Amount \<Rightarrow> PublicKey \<Rightarrow> 16 word
     \<Rightarrow> effect list \<times> Hash ret" where
  "StakeFunds_build app sel params stakerAddress stakingAmount validatorPk stakingTimeBlocks =
     (case UnlockWallet (wc app) of
        Some err \<Rightarrow> ([Wallet_UnlockWallet defaultWalletUnlockTimeout], RetErr err)
      | None \<Rightarrow>
     (case DumpPrivateKey (wc app) stakerAddress of
        Inl err \<Rightarrow>
          ([Wallet_UnlockWallet defaultWalletUnlockTimeout, Wallet_DumpPrivateKey stakerAddress], RetErr err)
      | Inr stakerPrivKey \<Rightarrow>
     (let e1 = [Wallet_UnlockWallet defaultWalletUnlockTimeout, Wallet_DumpPrivateKey stakerAddress] in
      case generatePop app stakerPrivKey of
        (e2, Inl err) \<Rightarrow> (e1 @ e2, RetErr err)
      | (e2, Inr pop) \<Rightarrow>
     (case BuildStakingOutput (lib app) stakerPrivKey validatorPk (JuryPk params)
             stakingTimeBlocks stakingAmount of
        Inl err \<Rightarrow> (e1 @ e2, RetErr err)
      | Inr (output, script) \<Rightarrow>
     (let feeRate = EstimateFeePerKb app;
          e3 = e1 @ e2 @ [Estimate_FeePerKb, Wallet_CreateAndSignTx feeRate stakerAddress] in
      case CreateAndSignTx (wc app) [output] feeRate stakerAddress of
        Inl err \<Rightarrow> (e3, RetErr err)
      | Inr tx \<Rightarrow>
          (let req = newOwnedStakingRequest stakerAddress tx 0 (PkScript output) script
                       (ConfirmationTimeBlocks params) pop
           in (e3 @ [Send_stakingRequestChan req], awaitReply sel)))))))"

definition StakeFunds ::
  "StakerApp \<Rightarrow> Hash selected \<Rightarrow> Address \<Rightarrow> Amount \<Rightarrow> PublicKey \<Rightarrow> 16 word \<Rightarrow> effect list \<times> Hash ret" where
  "StakeFunds app sel stakerAddress stakingAmount validatorPk stakingTimeBlocks =
     (if quit app then ([], RetNil)
      else
     (case validatorExists (lib app) validatorPk of
        Some err \<Rightarrow> ([Babylon_ValidatorExists validatorPk], RetErr err)
      | None \<Rightarrow>
     (case Params (babylonClient app) of
        Inl err \<Rightarrow> ([Babylon_ValidatorExists validatorPk, Babylon_Params], RetErr err)
      | Inr params \<Rightarrow>
     (let e0 = [Babylon_ValidatorExists validatorPk, Babylon_Params];
          slashingFee = getSlashingFee params in
      if word_sle stakingAmount slashingFee
      then (e0, RetErr (Errorf ''staking amount %d is less than minimum slashing fee %d''
                          [sint stakingAmount, sint slashingFee]))
      else
     (let minStakingTime = GetMinStakingTime params in
      if (ucast stakingTimeBlocks :: 32 word) < minStakingTime
      then (e0, RetErr (Errorf ''staking time %d is less than minimum staking time %d''
                          [uint stakingTimeBlocks, uint minStakingTime]))
      else
       (let (e, r) = StakeFunds_build app sel params stakerAddress stakingAmount validatorPk
                       stakingTimeBlocks
        in (e0 @ e, r)))))))"

text \<open>\<open>WatchStaking\<close>; the log record written before the request is sent reads the value of the
  staking output, and an index out of range panics.\<close>

definition WatchStaking ::
  "StakerApp \<Rightarrow> Hash selected \<Rightarrow> MsgTx \<Rightarrow> bytes \<Rightarrow> MsgTx \<Rightarrow> Signature \<Rightarrow> PublicKey \<Rightarrow> Address
     \<Rightarrow> BabylonPop \<Rightarrow> effect list \<times> Hash ret" where
  "WatchStaking app sel stakingTx stakingscript slashTx slashSig stakerBabylonPk stakerAddress pop =
     (case Params (babylonClient app) of
        Inl err \<Rightarrow>
          ([Babylon_Params], RetErr (ErrorfW ''failed to watch staking tx. Failed to get params: %w'' err))
      | Inr currentParams \<Rightarrow>
     (case parseWatchStakingRequest (lib app) stakingTx stakingscript slashTx slashSig
             stakerBabylonPk stakerAddress pop currentParams of
        Inl err \<Rightarrow>
          ([Babylon_Params], RetErr (ErrorfW ''failed to watch staking tx. Invalid request: %w'' err))
      | Inr (watchedRequest, validatorKey) \<Rightarrow>
     (case validatorExists (lib app) validatorKey of
        Some err \<Rightarrow> ([Babylon_Params, Babylon_ValidatorExists validatorKey], RetErr err)
      | None \<Rightarrow>
          if unat (r_stakingOutputIdx watchedRequest) < length (TxOuts (r_stakingTx watchedRequest))
          then ([Babylon_Params, Babylon_ValidatorExists validatorKey,
                 Send_stakingRequestChan watchedRequest], awaitReply sel)
          else ([Babylon_Params, Babylon_ValidatorExists validatorKey],
                NoReturn ''index out of range''))))"

text \<open>\<open>UnbondStaking\<close> from the parameter query on (the statements after its three checks).\<close>

definition UnbondStaking_submit ::
  "StakerApp \<Rightarrow> Hash selected \<Rightarrow> Hash \<Rightarrow> StoredTransaction \<Rightarrow> Amount \<Rightarrow> effect list \<times> Hash ret" where
  "UnbondStaking_submit app sel stakingTxHash tx unbondingTxFeeRatePerKb =
     (case Params (babylonClient app) of
        Inl err \<Rightarrow> ([Babylon_Params], RetErr (ErrorfW ''cannot unbond: %w'' err))
      | Inr currentParams \<Rightarrow>
     (case DecodeAddress (lib app) (StakerAddress tx) of
        Inl err \<Rightarrow>
          ([Babylon_Params], RetErr (ErrorfW ''cannot unbond: failed decode staker address.: %w'' err))
      | Inr stakerAddress \<Rightarrow>
     (case stakerPrivateKey app stakerAddress of
        (e1, Inl err) \<Rightarrow>
          (Babylon_Params # e1,
           RetErr (ErrorfW ''cannot unbond: failed to retrieve private key.: %w'' err))
      | (e1, Inr stakerPrivKey) \<Rightarrow>
     (case ParseStakingTransactionScript (lib app) (TxScript tx) of
        Inl err \<Rightarrow>
          (Babylon_Params # e1, NoReturn ''error parsing staking transaction script from db'')
      | Inr stakingScriptData \<Rightarrow>
     (case createUndelegationData (lib app) tx stakerPrivKey unbondingTxFeeRatePerKb
             (ucast (FinalizationTimeoutBlocks currentParams)) (getSlashingFee currentParams) of
        Inl err \<Rightarrow> (Babylon_Params # e1, RetErr err)
      | Inr undelegationData \<Rightarrow>
          (Babylon_Params # e1 @ [Send_sendUnbondingRequestChan stakingTxHash undelegationData],
           awaitReply sel))))))"

definition UnbondStaking ::
  "StakerApp \<Rightarrow> Hash selected \<Rightarrow> Hash \<Rightarrow> Amount option \<Rightarrow> effect list \<times> Hash ret" where
  "UnbondStaking app sel stakingTxHash feeRate =
     (if quit app then ([], RetNil)
      else
     (let (e0, unbondingTxFeeRatePerKb) =
            (case feeRate of
               None \<Rightarrow> ([Estimate_FeePerKb], EstimateFeePerKb app)
             | Some f \<Rightarrow> ([], f))
      in
      case GetTransaction (txTracker app) stakingTxHash of
        Inl err \<Rightarrow> (e0, RetErr (ErrorfW ''cannont unbond: %w'' err))
      | Inr tx \<Rightarrow>
          if Watched tx
          then (e0, RetErr (Errorf ''cannot unbond watched transaction'' []))
          else if State tx \<noteq> SENT_TO_BABYLON
          then (e0, RetErr (Errorf ''cannot unbond transaction which is not sent to babylon'' []))
          else if word_sless unbondingTxFeeRatePerKb MinFeePerKb
          then (e0, RetErr (Errorf ''minimum fee rate is %d sat/kb'' [sint MinFeePerKb]))
          else (let (e, r) = UnbondStaking_submit app sel stakingTxHash tx unbondingTxFeeRatePerKb
                in (e0 @ e, r))))"

definition SpendStake :: "StakerApp \<Rightarrow> Hash \<Rightarrow> effect list \<times> (Hash \<times> Amount) ret" where
  "SpendStake app stakingTxHash =
     (if quit app then ([], RetNil)
      else
     (case GetTransaction (txTracker app) stakingTxHash of
        Inl err \<Rightarrow> ([], RetErr err)
      | Inr tx \<Rightarrow>
     (if Watched tx
      then ([], RetErr (Errorf ''cannot spend staking which which is in watch only mode'' []))
      else
     (case DecodeAddress (lib app) (StakerAddress tx) of
        Inl err \<Rightarrow>
          ([], RetErr (ErrorfW ''cannot spend staking output. Error decoding staker address: %w'' err))
      | Inr destAddress \<Rightarrow>
     (case PayToAddrScript (lib app) destAddress of
        Inl err \<Rightarrow>
          ([], RetErr (ErrorfW ''cannot spend staking output. Cannot built destination script: %w'' err))
      | Inr destAddressScript \<Rightarrow>
     (let currentFeeRate = EstimateFeePerKb app in
      case createSpendStakeTxFromStoredTx (lib app) tx destAddressScript currentFeeRate of
        Inl err \<Rightarrow> ([Estimate_FeePerKb], RetErr err)
      | Inr info \<Rightarrow>
     (case stakerPrivateKey app destAddress of
        (e1, Inl err) \<Rightarrow>
          (Estimate_FeePerKb # e1,
           RetErr (ErrorfW ''cannot spend staking output. Error getting private key: %w'' err))
      | (e1, Inr privKey) \<Rightarrow>
     (case BuildWitnessToSpendStakingOutput (lib app) info privKey of
        Inl err \<Rightarrow>
          (Estimate_FeePerKb # e1,
           RetErr (ErrorfW ''cannot spend staking output. Error building witness: %w'' err))
      | Inr witness \<Rightarrow>
     (let e2 = Estimate_FeePerKb # e1 @ [Wallet_SendRawTransaction (TxHash (spendStakeTx info))] in
      case SendRawTransaction (wc app) (spendStakeTx info) of
        Inl err \<Rightarrow> (e2, RetErr (ErrorfW ''cannot spend staking output. Error sending tx: %w'' err))
      | Inr spendTxHash \<Rightarrow>
     (case TxOuts (spendStakeTx info) of
        [] \<Rightarrow> (e2, NoReturn ''index out of range'')
      | out0 # _ \<Rightarrow>
     (let spendTxValue = Value out0;
          e3 = e2 @ [Notifier_RegisterConfirmationsNtfn spendTxHash (PkScript out0)
                       SpendStakeTxConfirmations (currentBestBlockHeight app)] in
      case RegisterConfirmationsNtfn app spendTxHash (PkScript out0) SpendStakeTxConfirmations
             (currentBestBlockHeight app) of
        Inl err \<Rightarrow>
          (e3, RetErr (ErrorfW ''spend tx sent. Error registering confirmation notifcation: %w'' err))
      | Inr confEvent \<Rightarrow>
          (e3 @ [Spawn (Go_waitForSpendConfirmation stakingTxHash confEvent)],
           RetVal (spendTxHash, spendTxValue)))))))))))))"

section \<open>Helper tasks\<close>

text \<open>
  \<open>waitForSpendConfirmation\<close>: after the check of the quit channel, one \<open>select\<close> over the
  confirmation, the two-hour context and the quit channel; every case returns.  The case
  that fires is an argument.
\<close>

datatype spendWake = Spend_Confirmed | Spend_Timeout | Spend_Quit

definition waitForSpendConfirmation ::
  "StakerApp \<Rightarrow> spendWake \<Rightarrow> Hash \<Rightarrow> ConfirmationEvent \<Rightarrow> effect list" where
  "waitForSpendConfirmation app w stakingTxHash ev =
     (if quit app then [Notifier_Cancel ev]
      else
       (case w of
          Spend_Confirmed \<Rightarrow> [Send_spendTxConfirmationChan stakingTxHash, Notifier_Cancel ev]
        | Spend_Timeout \<Rightarrow> [Sleep timeoutWaitingForSpendConfirmation]
        | Spend_Quit \<Rightarrow> [Recv_quit, Notifier_Cancel ev]))"

definition waitForStakingTransactionConfirmation ::
  "StakerApp \<Rightarrow> Hash \<Rightarrow> bytes \<Rightarrow> 32 word \<Rightarrow> 32 word \<Rightarrow> effect list \<times> error option" where
  "waitForStakingTransactionConfirmation app stakingTxHash stakingTxPkScript requiredBlockDepth best =
     (case RegisterConfirmationsNtfn app stakingTxHash stakingTxPkScript (requiredBlockDepth + 1) best of
        Inl err \<Rightarrow>
          ([Notifier_RegisterConfirmationsNtfn stakingTxHash stakingTxPkScript (requiredBlockDepth + 1) best],
           Some err)
      | Inr confEvent \<Rightarrow>
          ([Notifier_RegisterConfirmationsNtfn stakingTxHash stakingTxPkScript (requiredBlockDepth + 1) best,
            Spawn (Go_waitForStakingTxConfirmation stakingTxHash requiredBlockDepth confEvent)],
           None))"

definition mustGetTransactionAndStakerAddress ::
  "StakerApp \<Rightarrow> Hash \<Rightarrow> string + (StoredTransaction \<times> Address)" where
  "mustGetTransactionAndStakerAddress app txHash =
     (case GetTransaction (txTracker app) txHash of
        Inl err \<Rightarrow> Inl ''Error getting transaction state for tx''
      | Inr ts \<Rightarrow>
         (case DecodeAddress (lib app) (StakerAddress ts) of
            Inl err \<Rightarrow> Inl ''Error decoding staker address''
          | Inr stakerAddress \<Rightarrow> Inr (ts, stakerAddress)))"

text \<open>\<open>tx.StakingTx.TxOut[tx.StakingOutputIndex].PkScript\<close>; an index out of range panics.\<close>

definition stakingPkScript :: "StoredTransaction \<Rightarrow> bytes option" where
  "stakingPkScript tx =
     (let outs = TxOuts (StakingTx tx); i = unat (StakingOutputIndex tx) in
      if i < length outs then Some (PkScript (outs ! i)) else None)"

section \<open>The engine\<close>

datatype inbound =
    In_stakingRequestChan stakingRequest
  | In_confirmationEventChan stakingTxBtcConfirmation
  | In_sendDelegationResponseChan Hash "error option"
  | In_spendTxConfirmationChan Hash
  | In_sendUnbondingRequestConfirmChan unbondingRequestConfirm
  | In_unbondingSignaturesConfirmedChan unbondingSignaturesConfirmed
  | In_unbondingConfirmedOnBtcChan unbondingTxBtcConfirmation
  | In_quit

text \<open>One turn of the loop of \<open>handleStaking\<close>: it goes on with the updated application,
  returns (quit), or stops the process (\<open>logger.Fatalf\<close>).\<close>

datatype engine = Continue StakerApp | Return | Exit string

fun handleStaking :: "StakerApp \<Rightarrow> inbound \<Rightarrow> effect list \<times> engine" where
  "handleStaking app (In_stakingRequestChan req) =
     (let txHash = TxHash (r_stakingTx req);
          bestBlockHeight = currentBestBlockHeight app;
          (e1, added) =
            (if isWatched req
             then
               (case AddWatchedTransaction (txTracker app) (r_stakingTx req) (r_stakingOutputIdx req)
                       (r_stakingTxScript req) (r_stakerAddress req) of
                  Inl err \<Rightarrow> ([], Inl err)
                | Inr st \<Rightarrow> ([Store_Write txHash SENT_TO_BTC], Inr st))
             else
               (case SendRawTransaction (wc app) (r_stakingTx req) of
                  Inl err \<Rightarrow> ([Wallet_SendRawTransaction txHash], Inl err)
                | Inr sent \<Rightarrow>
                   (case AddTransaction (txTracker app) (r_stakingTx req) (r_stakingOutputIdx req)
                           (r_stakingTxScript req) (r_stakerAddress req) of
                      Inl err \<Rightarrow> ([Wallet_SendRawTransaction txHash], Inl err)
                    | Inr st \<Rightarrow>
                        ([Wallet_SendRawTransaction txHash, Store_Write txHash SENT_TO_BTC], Inr st))))
      in
      case added of
        Inl err \<Rightarrow> (e1 @ [Send_errChan err], Continue app)
      | Inr st \<Rightarrow>
         (case waitForStakingTransactionConfirmation app txHash (r_stakingOutputPkScript req)
                 (r_requiredDepthOnBtcChain req) bestBlockHeight of
            (e2, Some err) \<Rightarrow> (e1 @ e2 @ [Send_errChan err], Continue (app\<lparr>txTracker := st\<rparr>))
          | (e2, None) \<Rightarrow> (e1 @ e2 @ [Send_successChan txHash], Continue (app\<lparr>txTracker := st\<rparr>))))"
| "handleStaking app (In_confirmationEventChan confEvent) =
     (case SetTxConfirmed (txTracker app) (c_txHash confEvent) of
        Inl err \<Rightarrow> ([], Exit ''Error setting state for tx'')
      | Inr st \<Rightarrow>
          ([Store_Write (c_txHash confEvent) CONFIRMED_ON_BTC,
            Call_sendDelegationWithTxToBabylon
              \<lparr>d_txHash = c_txHash confEvent, d_txIndex = c_txIndex confEvent,
               d_inclusionBlock = c_inlusionBlock confEvent,
               d_requiredInclusionBlockDepth = ucast (c_blockDepth confEvent)\<rparr>],
           Continue (app\<lparr>txTracker := st\<rparr>)))"
| "handleStaking app (In_sendDelegationResponseChan txHash sendErr) =
     (case sendErr of
        Some err \<Rightarrow> ([], Exit ''Error sending delegation to babylon'')
      | None \<Rightarrow>
         (case SetTxSentToBabylon (txTracker app) txHash of
            Inl err \<Rightarrow> ([], Exit ''Error setting state for tx'')
          | Inr st \<Rightarrow> ([Store_Write txHash SENT_TO_BABYLON], Continue (app\<lparr>txTracker := st\<rparr>))))"
| "handleStaking app (In_spendTxConfirmationChan stakingTxHash) =
     (case SetTxSpentOnBtc (txTracker app) stakingTxHash of
        Inl err \<Rightarrow> ([], Exit ''Error setting state for tx'')
      | Inr st \<Rightarrow> ([Store_Write stakingTxHash SPENT_ON_BTC], Continue (app\<lparr>txTracker := st\<rparr>)))"
| "handleStaking app (In_sendUnbondingRequestConfirmChan confirmation) =
     (case SetTxUnbondingStarted (u_unbondingTransaction confirmation)
             (u_unbondingTransactionScript confirmation) (txTracker app)
             (u_stakingTxHash confirmation) of
        Inl err \<Rightarrow> ([], Exit ''Error setting state for tx'')
      | Inr st \<Rightarrow>
          ([Store_Write (u_stakingTxHash confirmation) UNBONDING_STARTED,
            Spawn (Go_checkForUnbondingTxSignaturesOnBabylon (u_stakingTxHash confirmation)),
            Send_successChan (TxHash (u_unbondingTransaction confirmation))],
           Continue (app\<lparr>txTracker := st\<rparr>)))"
| "handleStaking app (In_unbondingSignaturesConfirmedChan conf) =
     (case SetTxUnbondingSignaturesReceived (txTracker app) (s_stakingTxHash conf) of
        Inl err \<Rightarrow> ([], Exit ''Error setting state for tx'')
      | Inr st \<Rightarrow>
         (case mustGetTransactionAndStakerAddress (app\<lparr>txTracker := st\<rparr>) (s_stakingTxHash conf) of
            Inl msg \<Rightarrow> ([Store_Write (s_stakingTxHash conf) UNBONDING_SIGNATURES_RECEIVED], Exit msg)
          | Inr (storedTx, stakerAddress) \<Rightarrow>
              ([Store_Write (s_stakingTxHash conf) UNBONDING_SIGNATURES_RECEIVED,
                Spawn (Go_sendUnbondingTxToBtcAndWaitForConfirmation (s_stakingTxHash conf) stakerAddress)],
               Continue (app\<lparr>txTracker := st\<rparr>))))"
| "handleStaking app (In_unbondingConfirmedOnBtcChan confOnBtc) =
     (case SetTxUnbondingConfirmedOnBtc (txTracker app) (b_stakingTxHash confOnBtc) of
        Inl err \<Rightarrow> ([], Exit ''Error setting state for tx'')
      | Inr st \<Rightarrow>
          ([Store_Write (b_stakingTxHash confOnBtc) UNBONDING_CONFIRMED_ON_BTC],
           Continue (app\<lparr>txTracker := st\<rparr>)))"
| "handleStaking app In_quit = ([Recv_quit], Return)"

text \<open>What a helper task sends reaches the engine: the inbound message a send delivers.\<close>

fun delivered :: "effect \<Rightarrow> inbound option" where
  "delivered (Send_stakingRequestChan req) = Some (In_stakingRequestChan req)"
| "delivered (Send_confirmationEventChan c) = Some (In_confirmationEventChan c)"
| "delivered (Send_sendDelegationResponseChan h e) = Some (In_sendDelegationResponseChan h e)"
| "delivered (Send_spendTxConfirmationChan h) = Some (In_spendTxConfirmationChan h)"
| "delivered (PushOrQuit_sendUnbondingRequestConfirmChan c) = Some (In_sendUnbondingRequestConfirmChan c)"
| "delivered (PushOrQuit_unbondingConfirmedOnBtcChan c) = Some (In_unbondingConfirmedOnBtcChan c)"
| "delivered e = None"

fun engineRun :: "StakerApp \<Rightarrow> effect list \<Rightarrow> effect list \<times> engine" where
  "engineRun app [] = ([], Continue app)"
| "engineRun app (e # es) =
     (case delivered e of
        None \<Rightarrow> engineRun app es
      | Some msg \<Rightarrow>
         (case handleStaking app msg of
            (w, Continue app') \<Rightarrow> (let (w', r) = engineRun app' es in (w @ w', r))
          | (w, other) \<Rightarrow> (w, other)))"

section \<open>The startup reconciler\<close>

definition handleBtcTxInfo ::
  "StakerApp \<Rightarrow> Hash \<Rightarrow> StoredTransaction \<Rightarrow> StakingParams \<Rightarrow> 32 word \<Rightarrow> TxStatus
     \<Rightarrow> TxConfirmation option \<Rightarrow> effect list \<times> outcome" where
  "handleBtcTxInfo app stakingTxHash txInfo params best txStatus btcTxInfo =
     (case txStatus of
        TxNotFound \<Rightarrow>
          ([LogError ''Transaction from database not found in BTC mempool or chain''], Done)
      | TxInMemPool \<Rightarrow>
         (case stakingPkScript txInfo of
            None \<Rightarrow> ([], Fatal ''index out of range'')
          | Some pk \<Rightarrow>
             (case waitForStakingTransactionConfirmation app stakingTxHash pk
                     (ConfirmationTimeBlocks params) best of
                (e, Some err) \<Rightarrow> (e, Failed err)
              | (e, None) \<Rightarrow> (e, Done)))
      | TxInChain \<Rightarrow>
         (case btcTxInfo of
            None \<Rightarrow> ([], Fatal ''nil pointer dereference'')
          | Some info \<Rightarrow>
              if best < BlockHeight info
              then ([LogError ''Current best block height is lower than block height of transaction''],
                    Done)
              else
               (let blockDepth = best - BlockHeight info in
                if ConfirmationTimeBlocks params \<le> blockDepth
                then
                  ([Send_confirmationEventChan
                      \<lparr>c_txHash = stakingTxHash, c_txIndex = TxIndex info,
                       c_blockDepth = ConfirmationTimeBlocks params, c_blockHash = BlockHash info,
                       c_blockHeight = BlockHeight info, c_tx = StakingTx txInfo,
                       c_inlusionBlock = Block info\<rparr>], Done)
                else
                 (case stakingPkScript txInfo of
                    None \<Rightarrow> ([], Fatal ''index out of range'')
                  | Some pk \<Rightarrow>
                     (case waitForStakingTransactionConfirmation app stakingTxHash pk
                             (ConfirmationTimeBlocks params) best of
                        (e, Some err) \<Rightarrow> (e, Failed err)
                      | (e, None) \<Rightarrow> (e, Done))))))"

text \<open>
  The visitor that \<open>checkTransactionsStatus\<close> hands to \<open>ScanTrackedTransactions\<close>, run over
  the records in scan order.  It fills the three work lists
  \<open>transactionsSentToBtc\<close>, \<open>transactionConfirmedOnBtc\<close> and \<open>transactionsOnBabylon\<close>.
\<close>

fun scan ::
  "StoredTransaction list \<Rightarrow> Hash list \<times> Hash list \<times> (Hash \<times> TransactionState) list
     \<Rightarrow> error + (Hash list \<times> Hash list \<times> (Hash \<times> TransactionState) list)" where
  "scan [] acc = Inr acc"
| "scan (tx # rest) (sentToBtc, confirmedOnBtc, onBabylon) =
     (let stakingTxHash = TxHash (StakingTx tx) in
      case State tx of
        SENT_TO_BTC \<Rightarrow> scan rest (sentToBtc @ [stakingTxHash], confirmedOnBtc, onBabylon)
      | CONFIRMED_ON_BTC \<Rightarrow> scan rest (sentToBtc, confirmedOnBtc @ [stakingTxHash], onBabylon)
      | SENT_TO_BABYLON \<Rightarrow>
          scan rest (sentToBtc, confirmedOnBtc, onBabylon @ [(stakingTxHash, State tx)])
      | UNBONDING_STARTED \<Rightarrow>
          scan rest (sentToBtc, confirmedOnBtc, onBabylon @ [(stakingTxHash, State tx)])
      | UNBONDING_SIGNATURES_RECEIVED \<Rightarrow>
          scan rest (sentToBtc, confirmedOnBtc, onBabylon @ [(stakingTxHash, State tx)])
      | UNBONDING_CONFIRMED_ON_BTC \<Rightarrow> scan rest (sentToBtc, confirmedOnBtc, onBabylon)
      | SPENT_ON_BTC \<Rightarrow> scan rest (sentToBtc, confirmedOnBtc, onBabylon)
      | UNRECOGNIZED n \<Rightarrow> Inl (Errorf ''unknown transaction state: %d'' [n]))"

text \<open>
  The three loops of \<open>checkTransactionsStatus\<close>.  Each answers \<open>None\<close> when it has run to
  the end of its list, and \<open>Some out\<close> when a \<open>return\<close> inside the loop body ended
  \<open>checkTransactionsStatus\<close> with \<open>out\<close>.
\<close>

fun loopSentToBtc ::
  "StakerApp \<Rightarrow> StakingParams \<Rightarrow> Hash list \<Rightarrow> effect list \<times> outcome option" where
  "loopSentToBtc app stakingParams [] = ([], None)"
| "loopSentToBtc app stakingParams (stakingTxHash # rest) =
     (case mustGetTransactionAndStakerAddress app stakingTxHash of
        Inl msg \<Rightarrow> ([], Some (Fatal msg))
      | Inr (tx, addr) \<Rightarrow>
     (case stakingPkScript tx of
        None \<Rightarrow> ([], Some (Fatal ''index out of range''))
      | Some pk \<Rightarrow>
     (case TxDetails (wc app) stakingTxHash pk of
        Inl err \<Rightarrow> ([Wallet_TxDetails stakingTxHash pk], Some (Failed err))
      | Inr (details, status) \<Rightarrow>
     (case handleBtcTxInfo app stakingTxHash tx stakingParams (currentBestBlockHeight app)
             status details of
        (e, Done) \<Rightarrow>
          (let (e', r) = loopSentToBtc app stakingParams rest
           in (Wallet_TxDetails stakingTxHash pk # e @ e', r))
      | (e, out) \<Rightarrow> (Wallet_TxDetails stakingTxHash pk # e, Some out)))))"

fun loopConfirmedOnBtc ::
  "StakerApp \<Rightarrow> StakingParams \<Rightarrow> Hash list \<Rightarrow> effect list \<times> outcome option" where
  "loopConfirmedOnBtc app stakingParams [] = ([], None)"
| "loopConfirmedOnBtc app stakingParams (stakingTxHash # rest) =
     (case IsTxAlreadyPartOfDelegation (babylonClient app) stakingTxHash of
        Inl err \<Rightarrow> ([Babylon_IsTxAlreadyPartOfDelegation stakingTxHash], Some (Failed err))
      | Inr alreadyOnBabylon \<Rightarrow>
          if alreadyOnBabylon
          then
            (let (e', r) = loopConfirmedOnBtc app stakingParams rest
             in (Babylon_IsTxAlreadyPartOfDelegation stakingTxHash
                   # Send_sendDelegationResponseChan stakingTxHash None # e', r))
          else
           (case mustGetTransactionAndStakerAddress app stakingTxHash of
              Inl msg \<Rightarrow> ([Babylon_IsTxAlreadyPartOfDelegation stakingTxHash], Some (Fatal msg))
            | Inr (tx, addr) \<Rightarrow>
           (case stakingPkScript tx of
              None \<Rightarrow>
                ([Babylon_IsTxAlreadyPartOfDelegation stakingTxHash], Some (Fatal ''index out of range''))
            | Some pk \<Rightarrow>
           (case TxDetails (wc app) stakingTxHash pk of
              Inl err \<Rightarrow>
                ([Babylon_IsTxAlreadyPartOfDelegation stakingTxHash, Wallet_TxDetails stakingTxHash pk],
                 Some (Failed err))
            | Inr (details, status) \<Rightarrow>
                if status \<noteq> TxInChain
                then
                  ([Babylon_IsTxAlreadyPartOfDelegation stakingTxHash, Wallet_TxDetails stakingTxHash pk,
                    LogError ''Already confirmed transaction not found on btc chain.''],
                   Some Done)
                else
                 (case details of
                    None \<Rightarrow>
                      ([Babylon_IsTxAlreadyPartOfDelegation stakingTxHash,
                        Wallet_TxDetails stakingTxHash pk], Some (Fatal ''nil pointer dereference''))
                  | Some info \<Rightarrow>
                      ([Babylon_IsTxAlreadyPartOfDelegation stakingTxHash,
                        Wallet_TxDetails stakingTxHash pk,
                        Call_sendDelegationWithTxToBabylon
                          \<lparr>d_txHash = stakingTxHash, d_txIndex = TxIndex info,
                           d_inclusionBlock = Block info,
                           d_requiredInclusionBlockDepth =
                             ucast (ConfirmationTimeBlocks stakingParams)\<rparr>],
                       Some Done))))))"

text \<open>The body of the third loop for one entry; \<open>(e, None)\<close> goes on to the next entry.
  The error of the last branch leaves out the number of the state, which the protocol
  buffer definition of \<open>TransactionState\<close> fixes.\<close>

definition onBabylonEntry ::
  "StakerApp \<Rightarrow> Hash \<times> TransactionState \<Rightarrow> effect list \<times> outcome option" where
  "onBabylonEntry app localInfo =
     (let stakingTxHash = fst localInfo; stakingTxState = snd localInfo in
      if stakingTxState = UNBONDING_SIGNATURES_RECEIVED
      then
       (case mustGetTransactionAndStakerAddress app stakingTxHash of
          Inl msg \<Rightarrow> ([], Some (Fatal msg))
        | Inr (stored, address) \<Rightarrow>
       (case UnbondingTxData stored of
          None \<Rightarrow> ([], Some (Fatal ''nil pointer dereference''))
        | Some unbondingData \<Rightarrow>
       (case TxOuts (UnbondingTx unbondingData) of
          [] \<Rightarrow> ([], Some (Fatal ''index out of range''))
        | out0 # _ \<Rightarrow>
       (let unbondingTxHash = TxHash (UnbondingTx unbondingData);
            unbondingPkScript = PkScript out0 in
        case TxDetails (wc app) unbondingTxHash unbondingPkScript of
          Inl err \<Rightarrow>
            ([Wallet_TxDetails unbondingTxHash unbondingPkScript],
             Some (Failed (ErrorfW ''failed to get unbonding btc transaction details: %w'' err)))
        | Inr (details, status) \<Rightarrow>
            if status = TxNotFound
            then
              ([Wallet_TxDetails unbondingTxHash unbondingPkScript,
                Spawn (Go_sendUnbondingTxToBtcAndWaitForConfirmation stakingTxHash address)], None)
            else
             (case details of
                None \<Rightarrow>
                  ([Wallet_TxDetails unbondingTxHash unbondingPkScript],
                   Some (Fatal ''nil pointer dereference''))
              | Some info \<Rightarrow>
                 (let txHeightHint =
                        (if status = TxInChain then BlockHeight info else currentBestBlockHeight app)
                  in
                  case RegisterConfirmationsNtfn app unbondingTxHash unbondingPkScript
                         UnbondingTxConfirmations txHeightHint of
                    Inl err \<Rightarrow>
                      ([Wallet_TxDetails unbondingTxHash unbondingPkScript,
                        Notifier_RegisterConfirmationsNtfn unbondingTxHash unbondingPkScript
                          UnbondingTxConfirmations txHeightHint],
                       Some (Failed (ErrorfW
                          ''failed to register unbonding tx confirmation event: %w'' err)))
                  | Inr waitEv \<Rightarrow>
                      ([Wallet_TxDetails unbondingTxHash unbondingPkScript,
                        Notifier_RegisterConfirmationsNtfn unbondingTxHash unbondingPkScript
                          UnbondingTxConfirmations txHeightHint,
                        Spawn (Go_waitForUnbondingTxConfirmationWithWg waitEv stakingTxHash)],
                       None)))))))
      else if stakingTxState = UNBONDING_STARTED
      then ([Spawn (Go_checkForUnbondingTxSignaturesOnBabylon stakingTxHash)], None)
      else if stakingTxState = SENT_TO_BABYLON
      then
       (case QueryDelegationInfo (babylonClient app) stakingTxHash of
          Inl err \<Rightarrow>
            if errorsIs err ErrDelegationNotFound
            then ([Babylon_QueryDelegationInfo stakingTxHash,
                   LogError ''Delegation not found on babylon, but found in local db''], None)
            else ([Babylon_QueryDelegationInfo stakingTxHash], Some (Failed err))
        | Inr babylonInfo \<Rightarrow>
           (case UndelegationInfoOf babylonInfo of
              None \<Rightarrow> ([Babylon_QueryDelegationInfo stakingTxHash], None)
            | Some undelegation \<Rightarrow>
                ([Babylon_QueryDelegationInfo stakingTxHash,
                  PushOrQuit_sendUnbondingRequestConfirmChan
                    \<lparr>u_stakingTxHash = stakingTxHash,
                     u_unbondingTransaction = UnbondingTransaction undelegation,
                     u_unbondingTransactionScript = UnbondingTransactionScript undelegation\<rparr>],
                 None)))
      else ([], Some (Failed (Errorf ''unexpected local transaction state: %d'' []))))"

fun loopOnBabylon ::
  "StakerApp \<Rightarrow> (Hash \<times> TransactionState) list \<Rightarrow> effect list \<times> outcome option" where
  "loopOnBabylon app [] = ([], None)"
| "loopOnBabylon app (localInfo # rest) =
     (case onBabylonEntry app localInfo of
        (e, None) \<Rightarrow> (let (e', r) = loopOnBabylon app rest in (e @ e', r))
      | (e, Some out) \<Rightarrow> (e, Some out))"

definition checkTransactionsStatus :: "StakerApp \<Rightarrow> effect list \<times> outcome" where
  "checkTransactionsStatus app =
     (case Params (babylonClient app) of
        Inl err \<Rightarrow> ([Babylon_Params], Failed err)
      | Inr stakingParams \<Rightarrow>
     (case scan (txTracker app) ([], [], []) of
        Inl err \<Rightarrow> ([Babylon_Params], Failed err)
      | Inr (transactionsSentToBtc, transactionConfirmedOnBtc, transactionsOnBabylon) \<Rightarrow>
     (case loopSentToBtc app stakingParams transactionsSentToBtc of
        (e1, Some out) \<Rightarrow> (Babylon_Params # e1, out)
      | (e1, None) \<Rightarrow>
     (case loopConfirmedOnBtc app stakingParams transactionConfirmedOnBtc of
        (e2, Some out) \<Rightarrow> (Babylon_Params # e1 @ e2, out)
      | (e2, None) \<Rightarrow>
     (case loopOnBabylon app transactionsOnBabylon of
        (e3, Some out) \<Rightarrow> (Babylon_Params # e1 @ e2 @ e3, out)
      | (e3, None) \<Rightarrow> (Babylon_Params # e1 @ e2 @ e3, Done))))))"

section \<open>Broadcasting the unbonding transaction\<close>

definition sendUnbondingTxToBtcWithWitness ::
  "StakerApp \<Rightarrow> Hash \<Rightarrow> Address \<Rightarrow> StoredTransaction \<Rightarrow> UnbondingStoreData
     \<Rightarrow> effect list \<times> outcome" where
  "sendUnbondingTxToBtcWithWitness app stakingTxHash stakerAddress storedTx unbondingData =
     (case stakerPrivateKey app stakerAddress of
        (e1, Inl err) \<Rightarrow>
          (e1 @ [LogError ''Failed to retrieve btc wallet private key send unbonding tx to btc''],
           Failed err)
      | (e1, Inr privkey) \<Rightarrow>
     (case createWitnessToSendUnbondingTx (lib app) privkey storedTx unbondingData of
        Inl err \<Rightarrow> (e1, Fatal ''Failed to create witness to send unbonding tx to btc'')
      | Inr witness \<Rightarrow>
     (case SendRawTransaction (wc app) (UnbondingTx unbondingData) of
        Inl err \<Rightarrow> (e1 @ [Wallet_SendRawTransaction (TxHash (UnbondingTx unbondingData))], Failed err)
      | Inr sent \<Rightarrow> (e1 @ [Wallet_SendRawTransaction (TxHash (UnbondingTx unbondingData))], Done))))"

text \<open>
  The two retry loops of \<open>sendUnbondingTxToBtc\<close> run against a script of observations, one
  \<open>tick\<close> per loop iteration: what the collaborators answer during that iteration, and which
  case of the \<open>select\<close> after a failed attempt fires (the 30-second timer or the quit
  channel).  The result is \<open>None\<close> when the script ends while the loop is still retrying.
\<close>

datatype wake = TimerFired | QuitFired

record tick =
  world :: StakerApp
  wake :: wake

datatype sendResult = Returns "ConfirmationEvent option" | Stops string

fun registerLoop :: "Hash \<Rightarrow> bytes \<Rightarrow> tick list \<Rightarrow> (effect list \<times> sendResult) option" where
  "registerLoop unbondingTxHash pk [] = None"
| "registerLoop unbondingTxHash pk (t # ts) =
     (let best = currentBestBlockHeight (world t);
          reg = Notifier_RegisterConfirmationsNtfn unbondingTxHash pk UnbondingTxConfirmations best in
      case RegisterConfirmationsNtfn (world t) unbondingTxHash pk UnbondingTxConfirmations best of
        Inr notificationEv \<Rightarrow> Some ([reg], Returns (Some notificationEv))
      | Inl err \<Rightarrow>
         (case wake t of
            QuitFired \<Rightarrow> Some ([reg, Recv_quit], Returns None)
          | TimerFired \<Rightarrow>
              map_option (\<lambda>(e, r). (reg # Sleep unbondingSendRetryTimeout # e, r))
                (registerLoop unbondingTxHash pk ts)))"

fun sendUnbondingTxToBtc ::
  "Hash \<Rightarrow> Address \<Rightarrow> StoredTransaction \<Rightarrow> UnbondingStoreData \<Rightarrow> tick list
     \<Rightarrow> (effect list \<times> sendResult) option" where
  "sendUnbondingTxToBtc stakingTxHash stakerAddress storedTx unbondingData [] = None"
| "sendUnbondingTxToBtc stakingTxHash stakerAddress storedTx unbondingData (t # ts) =
     (case sendUnbondingTxToBtcWithWitness (world t) stakingTxHash stakerAddress storedTx
             unbondingData of
        (e, Done) \<Rightarrow>
          (case TxOuts (UnbondingTx unbondingData) of
             [] \<Rightarrow> Some (e, Stops ''index out of range'')
           | out0 # _ \<Rightarrow>
               map_option (\<lambda>(e', r). (e @ e', r))
                 (registerLoop (TxHash (UnbondingTx unbondingData)) (PkScript out0) ts))
      | (e, Fatal msg) \<Rightarrow> Some (e, Stops msg)
      | (e, Failed err) \<Rightarrow>
         (case wake t of
            QuitFired \<Rightarrow>
              Some (e @ [LogError ''Failed to send unbodning tx to btc. Retrying...'', Recv_quit],
                    Returns None)
          | TimerFired \<Rightarrow>
              map_option
                (\<lambda>(e', r). (e @ [LogError ''Failed to send unbodning tx to btc. Retrying...'',
                                  Sleep unbondingSendRetryTimeout] @ e', r))
                (sendUnbondingTxToBtc stakingTxHash stakerAddress storedTx unbondingData ts)))"

text \<open>
  \<open>waitForUnbondingTxConfirmation\<close>: a loop around one \<open>select\<close> over the confirmation,
  the updates and the quit channel, run against the list of the cases that fire; the
  deferred \<open>waitEv.Cancel()\<close> is its last effect.  \<open>None\<close> when the list ends while the
  loop is still waiting.
\<close>

datatype confWake = Conf_Confirmed Hash "32 word" | Conf_Update nat | Conf_Quit

fun waitForUnbondingTxConfirmation ::
  "ConfirmationEvent \<Rightarrow> UnbondingStoreData \<Rightarrow> Hash \<Rightarrow> confWake list \<Rightarrow> effect list option" where
  "waitForUnbondingTxConfirmation waitEv unbondingData stakingTxHash [] = None"
| "waitForUnbondingTxConfirmation waitEv unbondingData stakingTxHash (Conf_Confirmed bh height # ws) =
     Some [PushOrQuit_unbondingConfirmedOnBtcChan
             \<lparr>b_stakingTxHash = stakingTxHash, b_blockHash = bh, b_blockHeight = height\<rparr>,
           Notifier_Cancel waitEv]"
| "waitForUnbondingTxConfirmation waitEv unbondingData stakingTxHash (Conf_Update u # ws) =
     waitForUnbondingTxConfirmation waitEv unbondingData stakingTxHash ws"
| "waitForUnbondingTxConfirmation waitEv unbondingData stakingTxHash (Conf_Quit # ws) =
     Some [Recv_quit, Notifier_Cancel waitEv]"

text \<open>
  \<open>sendUnbondingTxToBtcAndWaitForConfirmation\<close>, the goroutine that the engine and the
  reconciler start with a staking hash, the staker address, the stored record and its
  unbonding data.  It ends normally or with the process stopped inside
  \<open>sendUnbondingTxToBtc\<close>.
\<close>

definition sendUnbondingTxToBtcAndWaitForConfirmation ::
  "StakerApp \<Rightarrow> Hash \<Rightarrow> Address \<Rightarrow> StoredTransaction \<Rightarrow> UnbondingStoreData \<Rightarrow> tick list
     \<Rightarrow> confWake list \<Rightarrow> (effect list \<times> outcome) option" where
  "sendUnbondingTxToBtcAndWaitForConfirmation app stakingTxHash stakerAddress storedTx unbondingData
       ticks wakes =
     (if quit app then Some ([], Done)
      else
       (case sendUnbondingTxToBtc stakingTxHash stakerAddress storedTx unbondingData ticks of
          None \<Rightarrow> None
        | Some (e, Stops msg) \<Rightarrow> Some (e, Fatal msg)
        | Some (e, Returns None) \<Rightarrow> Some (e, Done)
        | Some (e, Returns (Some waitEv)) \<Rightarrow>
            map_option (\<lambda>e'. (e @ e', Done))
              (waitForUnbondingTxConfirmation waitEv unbondingData stakingTxHash wakes)))"

section \<open>The service client\<close>

text \<open>
  \<open>Unbond\<close> of package \<open>service\<close>.  \<open>newClient\<close> is \<open>dc.NewStakerServiceJsonRpcClient\<close>; the
  client it answers is given by its remote call \<open>UnbondStaking\<close>.  The fee rate is a Go
  \<open>int\<close>, 64 bits wide on the platforms the daemon is built for.
\<close>

datatype rpc = Rpc_UnbondStaking string "64 word option"

definition Unbond ::
  "(string \<Rightarrow> error + (string \<Rightarrow> 64 word option \<Rightarrow> error + Hash)) \<Rightarrow> string \<Rightarrow> string \<Rightarrow> 64 word
     \<Rightarrow> rpc list \<times> Hash ret" where
  "Unbond newClient daemonAddress stakingTransactionHash feeRate =
     (case newClient daemonAddress of
        Inl err \<Rightarrow> ([], RetErr err)
      | Inr client \<Rightarrow>
          if word_sless feeRate 0
          then ([], RetErr (Errorf ''fee rate must be non-negative'' []))
          else
           (let fr = (if word_sless 0 feeRate then Some feeRate else None) in
            case client stakingTransactionHash fr of
              Inl err \<Rightarrow> ([Rpc_UnbondStaking stakingTransactionHash fr], RetErr err)
            | Inr result \<Rightarrow> ([Rpc_UnbondStaking stakingTransactionHash fr], RetVal result)))"

section \<open>Wallet access\<close>

text \<open>The effects that touch the wallet's keys or broadcast a transaction.\<close>

fun walletAccess :: "effect \<Rightarrow> bool" where
  "walletAccess (Wallet_UnlockWallet n) = True"
| "walletAccess (Wallet_DumpPrivateKey a) = True"
| "walletAccess (Wallet_SendRawTransaction h) = True"
| "walletAccess (Wallet_CreateAndSignTx f a) = True"
| "walletAccess e = False"

section \<open>Example configurations\<close>

text \<open>A daemon whose collaborators all answer without error, and a small store; the
  concrete inputs of the instances below.\<close>

definition exampleParams :: StakingParams where
  "exampleParams =
     \<lparr>ConfirmationTimeBlocks = 6, FinalizationTimeoutBlocks = 100, MinSlashingTxFeeSat = 500,
      JuryPk = 7, SlashingAddress = ''slashing''\<rparr>"

definition exampleTx :: "Hash \<Rightarrow> MsgTx" where
  "exampleTx h = \<lparr>TxHash = h, TxOuts = [\<lparr>Value = 100000, PkScript = [1, 2, 3]\<rparr>]\<rparr>"

definition exampleRecord :: "Hash \<Rightarrow> bool \<Rightarrow> TransactionState \<Rightarrow> StoredTransaction" where
  "exampleRecord h w st =
     \<lparr>StakingTx = exampleTx h, StakingOutputIndex = 0, TxScript = [9], StakerAddress = ''staker'',
      Watched = w, State = st, UnbondingTxData = None\<rparr>"

definition exampleWallet :: WalletController where
  "exampleWallet =
     \<lparr>UnlockWallet = None,
      DumpPrivateKey = (\<lambda>a. Inr 11),
      SendRawTransaction = (\<lambda>tx. Inr (TxHash tx)),
      CreateAndSignTx = (\<lambda>outs fee a. Inr \<lparr>TxHash = 42, TxOuts = outs\<rparr>),
      TxDetails = (\<lambda>h pk. Inr (Some \<lparr>BlockHash = 5, BlockHeight = 90, TxIndex = 1, Block = 3\<rparr>,
                               TxInChain))\<rparr>"

definition exampleBabylon :: BabylonClient where
  "exampleBabylon =
     \<lparr>Params = Inr exampleParams,
      Sign = (\<lambda>b. Inr b),
      GetPubKey = 13,
      IsTxAlreadyPartOfDelegation = (\<lambda>h. Inr False),
      QueryDelegationInfo = (\<lambda>h. Inr \<lparr>UndelegationInfoOf = None\<rparr>)\<rparr>"

definition exampleLib :: Libraries where
  "exampleLib =
     \<lparr>validatorExists = (\<lambda>pk. None),
      SerializePubKey = (\<lambda>k. [4]),
      schnorrSign = (\<lambda>k b. Inr 17),
      NewBabylonPop = (\<lambda>b s. Inr 19),
      BuildStakingOutput = (\<lambda>k v j t a. Inr (\<lparr>Value = a, PkScript = [1, 2, 3]\<rparr>, [9])),
      DecodeAddress = (\<lambda>a. Inr a),
      PayToAddrScript = (\<lambda>a. Inr [6]),
      createSpendStakeTxFromStoredTx =
        (\<lambda>tx script fee. Inr \<lparr>spendStakeTx = \<lparr>TxHash = 77, TxOuts = [\<lparr>Value = 99000, PkScript = script\<rparr>]\<rparr>,
           fundingOutput = \<lparr>Value = 100000, PkScript = [1, 2, 3]\<rparr>, fundingOutputScript = [9],
           calculatedFee = 1000\<rparr>),
      BuildWitnessToSpendStakingOutput = (\<lambda>i k. Inr [8]),
      ParseStakingTransactionScript = (\<lambda>b. Inr 0),
      createUndelegationData =
        (\<lambda>tx k fee t sf. Inr \<lparr>ud_UnbondingTransaction = exampleTx 55, ud_UnbondingTransactionScript = [5]\<rparr>),
      createWitnessToSendUnbondingTx = (\<lambda>k tx ud. Inr [8]),
      parseWatchStakingRequest =
        (\<lambda>stx script sltx sig bpk addr pop params.
           Inr (\<lparr>r_stakerAddress = addr, r_stakingTx = stx, r_stakingOutputIdx = 0,
                 r_stakingOutputPkScript = [1, 2, 3], r_stakingTxScript = script,
                 r_requiredDepthOnBtcChain = ConfirmationTimeBlocks params, r_pop = pop,
                 r_watchTxData = Some \<lparr>slashingTx = sltx, slashingTxSig = sig,
                                       stakerBabylonPubKey = bpk\<rparr>\<rparr>, 23))\<rparr>"

definition exampleApp :: "StoredTransaction list \<Rightarrow> StakerApp" where
  "exampleApp st =
     \<lparr>quit = False, babylonClient = exampleBabylon, wc = exampleWallet,
      RegisterConfirmationsNtfn = (\<lambda>h pk n hint. Inr 31),
      EstimateFeePerKb = 2000, lib = exampleLib, txTracker = st, currentBestBlockHeight = 100\<rparr>"

definition exampleWatchedRequest :: stakingRequest where
  "exampleWatchedRequest =
     \<lparr>r_stakerAddress = ''staker'', r_stakingTx = exampleTx 1, r_stakingOutputIdx = 0,
      r_stakingOutputPkScript = [1, 2, 3], r_stakingTxScript = [9],
      r_requiredDepthOnBtcChain = 6, r_pop = 19,
      r_watchTxData = Some \<lparr>slashingTx = exampleTx 2, slashingTxSig = 3, stakerBabylonPubKey = 5\<rparr>\<rparr>"

text \<open>The same daemon after its quit channel was closed, with a coordinator that cannot be
  reached.\<close>

definition stoppedApp :: StakerApp where
  "stoppedApp =
     (exampleApp [exampleRecord 2 False SENT_TO_BABYLON])
       \<lparr>quit := True,
        babylonClient := exampleBabylon\<lparr>Params := Inl (ErrExternal ''connection refused'')\<rparr>\<rparr>"



definition exampleUnbonding :: UnbondingStoreData where
  "exampleUnbonding = \<lparr>UnbondingTx = exampleTx 55, UnbondingTxScript = [5]\<rparr>"

text \<open>A store with a confirmed record ahead of a record whose unbonding has started and of
  a second confirmed record.\<close>

definition exampleStore :: "StoredTransaction list" where
  "exampleStore =
     [exampleRecord 1 False CONFIRMED_ON_BTC, exampleRecord 2 False UNBONDING_STARTED,
      exampleRecord 3 False CONFIRMED_ON_BTC]"

text \<open>A watched record that the coordinator reports as undelegated, in the states it
  passes through, and the daemon that holds it.\<close>

definition watchedRecord :: "TransactionState \<Rightarrow> StoredTransaction" where
  "watchedRecord st = (exampleRecord 1 True st)\<lparr>UnbondingTxData := Some exampleUnbonding\<rparr>"

definition undelegatedApp :: "StoredTransaction list \<Rightarrow> StakerApp" where
  "undelegatedApp st =
     (exampleApp st)\<lparr>babylonClient := exampleBabylon\<lparr>QueryDelegationInfo :=
        (\<lambda>h. Inr \<lparr>UndelegationInfoOf =
                    Some \<lparr>UnbondingTransaction = exampleTx 55, UnbondingTransactionScript = [5]\<rparr>\<rparr>)\<rparr>\<rparr>"

section \<open>Properties\<close>

text \<open>
  C3. The effective slashing fee is the coordinator's fee when that is at least 1000
  satoshi and the internal floor of 1000 satoshi otherwise; it is never below 1000, and a
  reported fee of 500 gives 1000.
\<close>

theorem C3_getSlashingFee_floor:
  "getSlashingFee p =
      (if word_sle 1000 (MinSlashingTxFeeSat p) then MinSlashingTxFeeSat p else 1000)
   \<and> word_sle 1000 (getSlashingFee p)
   \<and> sint (getSlashingFee p) = max (sint (MinSlashingTxFeeSat p)) 1000
   \<and> getSlashingFee (p\<lparr>MinSlashingTxFeeSat := 500\<rparr>) = 1000"
  by (simp add: getSlashingFee_def minSlashingFee_def word_sless_alt word_sle_eq Let_def max_def)

theorem C3_getSlashingFee_floor_witness:
  "getSlashingFee \<lparr>ConfirmationTimeBlocks = 6, FinalizationTimeoutBlocks = 100,
      MinSlashingTxFeeSat = 500, JuryPk = 0, SlashingAddress = ''addr''\<rparr> = 1000
   \<and> getSlashingFee \<lparr>ConfirmationTimeBlocks = 6, FinalizationTimeoutBlocks = 100,
      MinSlashingTxFeeSat = 2500, JuryPk = 0, SlashingAddress = ''addr''\<rparr> = 2500"
  using C3_getSlashingFee_floor [of "\<lparr>ConfirmationTimeBlocks = 6, FinalizationTimeoutBlocks = 100,
      MinSlashingTxFeeSat = 500, JuryPk = 0, SlashingAddress = ''addr''\<rparr>"]
    C3_getSlashingFee_floor [of "\<lparr>ConfirmationTimeBlocks = 6, FinalizationTimeoutBlocks = 100,
      MinSlashingTxFeeSat = 2500, JuryPk = 0, SlashingAddress = ''addr''\<rparr>"]
  by (simp add: word_sle_eq)

subsection \<open>Staking requests: the two argument checks of \<open>StakeFunds\<close>\<close>

lemma unat_ucast_16_32: "unat (ucast (t :: 16 word) :: 32 word) = unat t"
  by (simp add: unsigned_ucast_eq take_bit_nat_eq_self_iff order_less_le_trans [OF unsigned_less])

lemma ucast_less_iff: "((ucast (t :: 16 word) :: 32 word) < m) = (unat t < unat m)"
  by (simp add: word_less_nat_alt unat_ucast_16_32)

lemma unat_GetMinStakingTime:
  "unat (GetMinStakingTime p) =
     (2 * unat (FinalizationTimeoutBlocks p) + unat (ConfirmationTimeBlocks p)) mod 2 ^ 32"
  by (simp add: GetMinStakingTime_def unat_word_ariths mod_simps)

lemma StakeFunds_build_unlocks:
  "Wallet_UnlockWallet defaultWalletUnlockTimeout
     \<in> set (fst (StakeFunds_build app sel params a amount v t))"
  by (simp add: StakeFunds_build_def Let_def split: option.splits sum.splits prod.splits)


lemma StakeFunds_amount_accepted:
  assumes "\<not> quit app" and "validatorExists (lib app) v = None"
    and "Params (babylonClient app) = Inr p" and "\<not> word_sle amount (getSlashingFee p)"
  shows "StakeFunds app sel a amount v t =
           (if unat t < unat (GetMinStakingTime p)
            then ([Babylon_ValidatorExists v, Babylon_Params],
                  RetErr (Errorf ''staking time %d is less than minimum staking time %d''
                            [uint t, uint (GetMinStakingTime p)]))
            else ([Babylon_ValidatorExists v, Babylon_Params]
                    @ fst (StakeFunds_build app sel p a amount v t),
                  snd (StakeFunds_build app sel p a amount v t)))"
  using assms by (simp add: StakeFunds_def Let_def ucast_less_iff split: prod.splits)




text \<open>
  C4. When the call reaches the staking-time check (the daemon is not shutting
  down, the validator exists, the parameters are at hand and the amount exceeds the fee),
  the check passes, and the wallet is unlocked next, exactly if the requested time is at
  least \<open>(2 * FinalizationTimeoutBlocks + ConfirmationTimeBlocks) mod 2^32\<close>, the sum as
  the 32-bit code computes it.  Where the sum stays below \<open>2^32\<close> this is the sum itself.  A
  request equal to the sum passes; a request one block below the sum fails with the
  staking-time error after the two coordinator queries only.
\<close>

theorem C4_staking_time_check:
  assumes "\<not> quit app" and "validatorExists (lib app) v = None"
    and "Params (babylonClient app) = Inr p" and "\<not> word_sle amount (getSlashingFee p)"
  shows "((Wallet_UnlockWallet defaultWalletUnlockTimeout
             \<in> set (fst (StakeFunds app sel a amount v t)))
          = ((2 * unat (FinalizationTimeoutBlocks p) + unat (ConfirmationTimeBlocks p)) mod 2 ^ 32
               \<le> unat t))
       \<and> (2 * unat (FinalizationTimeoutBlocks p) + unat (ConfirmationTimeBlocks p) < 2 ^ 32 \<longrightarrow>
            (Wallet_UnlockWallet defaultWalletUnlockTimeout
               \<in> set (fst (StakeFunds app sel a amount v t)))
            = (2 * unat (FinalizationTimeoutBlocks p) + unat (ConfirmationTimeBlocks p) \<le> unat t))
       \<and> (unat t = 2 * unat (FinalizationTimeoutBlocks p) + unat (ConfirmationTimeBlocks p) \<longrightarrow>
            StakeFunds app sel a amount v t =
              ([Babylon_ValidatorExists v, Babylon_Params]
                 @ fst (StakeFunds_build app sel p a amount v t),
               snd (StakeFunds_build app sel p a amount v t)))
       \<and> (unat t + 1 = 2 * unat (FinalizationTimeoutBlocks p) + unat (ConfirmationTimeBlocks p) \<longrightarrow>
            StakeFunds app sel a amount v t =
              ([Babylon_ValidatorExists v, Babylon_Params],
               RetErr (Errorf ''staking time %d is less than minimum staking time %d''
                         [uint t, uint (GetMinStakingTime p)])))
       \<and> ((2 * unat (FinalizationTimeoutBlocks p) + unat (ConfirmationTimeBlocks p)) mod 2 ^ 32
             > unat t \<longrightarrow>
            StakeFunds app sel a amount v t =
              ([Babylon_ValidatorExists v, Babylon_Params],
               RetErr (Errorf ''staking time %d is less than minimum staking time %d''
                         [uint t, uint (GetMinStakingTime p)])))"
proof -
  let ?sum = "2 * unat (FinalizationTimeoutBlocks p) + unat (ConfirmationTimeBlocks p)"
  let ?e0 = "[Babylon_ValidatorExists v, Babylon_Params]"
  have eq: "StakeFunds app sel a amount v t =
           (if unat t < ?sum mod 2 ^ 32
            then (?e0, RetErr (Errorf ''staking time %d is less than minimum staking time %d''
                            [uint t, uint (GetMinStakingTime p)]))
            else (?e0 @ fst (StakeFunds_build app sel p a amount v t),
                  snd (StakeFunds_build app sel p a amount v t)))"
    using StakeFunds_amount_accepted [OF assms] by (simp add: unat_GetMinStakingTime)
  have t16: "unat t < 2 ^ 32"
    using unsigned_less [of t, where 'a = nat] by simp
  have pass: "(Wallet_UnlockWallet defaultWalletUnlockTimeout
             \<in> set (fst (StakeFunds app sel a amount v t))) = (?sum mod 2 ^ 32 \<le> unat t)"
    using StakeFunds_build_unlocks [of app sel p a amount v t]
    by (auto simp: eq)
  have small: "?sum < 2 ^ 32 \<Longrightarrow> ?sum mod 2 ^ 32 = ?sum"
    by simp
  have exact: "unat t = ?sum \<Longrightarrow> ?sum mod 2 ^ 32 = unat t"
    using t16 by simp
  have below: "unat t + 1 = ?sum \<Longrightarrow> unat t < ?sum mod 2 ^ 32"
  proof -
    assume h: "unat t + 1 = ?sum"
    have "unat t < 2 ^ 16" using unsigned_less [of t, where 'a = nat] by simp
    then have "?sum < 2 ^ 32" using h by simp
    then show ?thesis using h by simp
  qed
  have c2: "?sum < 2 ^ 32 \<longrightarrow>
      (Wallet_UnlockWallet defaultWalletUnlockTimeout
         \<in> set (fst (StakeFunds app sel a amount v t))) = (?sum \<le> unat t)"
    using pass small by simp
  have c3: "unat t = ?sum \<longrightarrow>
      StakeFunds app sel a amount v t =
        (?e0 @ fst (StakeFunds_build app sel p a amount v t),
         snd (StakeFunds_build app sel p a amount v t))"
    using exact by (simp add: eq)
  have c5: "?sum mod 2 ^ 32 > unat t \<longrightarrow>
      StakeFunds app sel a amount v t =
        (?e0, RetErr (Errorf ''staking time %d is less than minimum staking time %d''
                        [uint t, uint (GetMinStakingTime p)]))"
    by (simp add: eq)
  have c4: "unat t + 1 = ?sum \<longrightarrow>
      StakeFunds app sel a amount v t =
        (?e0, RetErr (Errorf ''staking time %d is less than minimum staking time %d''
                        [uint t, uint (GetMinStakingTime p)]))"
    using below c5 by blast
  from pass c2 c3 c4 c5 show ?thesis
    by blast
qed

text \<open>
  The check does not compare the request with the sum itself: with
  \<open>FinalizationTimeoutBlocks = 2^31\<close> the 32-bit sum wraps to 0, and a request of 0 blocks
  passes the check although it is below the sum.
\<close>

theorem C4_staking_time_counterexample:
  "Wallet_UnlockWallet defaultWalletUnlockTimeout
     \<in> set (fst (StakeFunds
         ((exampleApp [])\<lparr>babylonClient := exampleBabylon\<lparr>Params :=
            Inr (exampleParams\<lparr>FinalizationTimeoutBlocks := 2147483648, ConfirmationTimeBlocks := 0\<rparr>)\<rparr>\<rparr>)
         (Sel_successChan 42) ''staker'' 5000 3 0))
   \<and> \<not> (2 * unat (2147483648 :: 32 word) + unat (0 :: 32 word) \<le> unat (0 :: 16 word))"
  by (simp add: StakeFunds_def StakeFunds_build_def exampleApp_def exampleWallet_def exampleLib_def
        exampleBabylon_def exampleParams_def generatePop_def awaitReply_def Let_def
        getSlashingFee_def minSlashingFee_def GetMinStakingTime_def word_sless_alt word_sle_eq
        newOwnedStakingRequest_def)

theorem C4_staking_time_check_witness:
  "snd (StakeFunds (exampleApp []) (Sel_successChan 42) ''staker'' 5000 3 206) = RetVal 42
   \<and> StakeFunds (exampleApp []) (Sel_successChan 42) ''staker'' 5000 3 205 =
       ([Babylon_ValidatorExists 3, Babylon_Params],
        RetErr (Errorf ''staking time %d is less than minimum staking time %d'' [205, 206]))"
proof -
  have p: "Params (babylonClient (exampleApp [])) = Inr exampleParams"
    by (simp add: exampleApp_def exampleBabylon_def)
  have q: "\<not> quit (exampleApp [])" "validatorExists (lib (exampleApp [])) 3 = None"
    by (simp_all add: exampleApp_def exampleLib_def)
  have f: "\<not> word_sle 5000 (getSlashingFee exampleParams)"
    by (simp add: getSlashingFee_def exampleParams_def minSlashingFee_def word_sless_alt word_sle_eq)
  have m: "GetMinStakingTime exampleParams = 206"
      "FinalizationTimeoutBlocks exampleParams = 100" "ConfirmationTimeBlocks exampleParams = 6"
    by (simp_all add: GetMinStakingTime_def exampleParams_def)
  have b: "snd (StakeFunds_build (exampleApp []) (Sel_successChan 42) exampleParams ''staker'' 5000 3 206)
             = RetVal 42"
    by (simp add: StakeFunds_build_def exampleApp_def exampleWallet_def exampleLib_def
          exampleBabylon_def generatePop_def awaitReply_def Let_def)
  show ?thesis
    using C4_staking_time_check [OF q p f, of "Sel_successChan 42" "''staker''" 206]
      C4_staking_time_check [OF q p f, of "Sel_successChan 42" "''staker''" 205] m b
    by simp
qed

subsection \<open>Unbonding requests: the preconditions of \<open>UnbondStaking\<close>\<close>

lemma UnbondStaking_effects_before_submit:
  "engineRun app (case feeRate of None \<Rightarrow> [Estimate_FeePerKb] | Some f \<Rightarrow> []) = ([], Continue app)"
  by (simp split: option.splits)

lemma UnbondStaking_watched:
  assumes "\<not> quit app" and "GetTransaction (txTracker app) h = Inr tx" and "Watched tx"
  shows "UnbondStaking app sel h feeRate =
           ((case feeRate of None \<Rightarrow> [Estimate_FeePerKb] | Some f \<Rightarrow> []),
            RetErr (Errorf ''cannot unbond watched transaction'' []))"
  using assms by (simp add: UnbondStaking_def split: option.splits)

lemma UnbondStaking_rejects:
  assumes "\<not> quit app"
    and "\<not> (\<exists>tx. GetTransaction (txTracker app) h = Inr tx \<and> \<not> Watched tx
                \<and> State tx = SENT_TO_BABYLON
                \<and> word_sle MinFeePerKb (case feeRate of None \<Rightarrow> EstimateFeePerKb app | Some f \<Rightarrow> f))"
  shows "\<exists>err. UnbondStaking app sel h feeRate =
           ((case feeRate of None \<Rightarrow> [Estimate_FeePerKb] | Some f \<Rightarrow> []), RetErr err)"
proof (cases "GetTransaction (txTracker app) h")
  case (Inl err)
  with assms(1) show ?thesis
    by (simp add: UnbondStaking_def split: option.splits)
next
  case (Inr tx)
  with assms show ?thesis
    by (cases feeRate) (auto simp: UnbondStaking_def word_sle_eq word_sless_alt)
qed

lemma UnbondStaking_accepts:
  assumes "\<not> quit app" and "GetTransaction (txTracker app) h = Inr tx" and "\<not> Watched tx"
    and "State tx = SENT_TO_BABYLON" and "word_sle MinFeePerKb f"
  shows "UnbondStaking app sel h (Some f) = UnbondStaking_submit app sel h tx f"
  using assms by (simp add: UnbondStaking_def word_sle_eq word_sless_alt split: prod.splits)

lemma UnbondStaking_fee_too_low:
  assumes "\<not> quit app" and "GetTransaction (txTracker app) h = Inr tx" and "\<not> Watched tx"
    and "State tx = SENT_TO_BABYLON" and "word_sless f MinFeePerKb"
  shows "UnbondStaking app sel h (Some f) =
           ([], RetErr (Errorf ''minimum fee rate is %d sat/kb'' [1000]))"
  using assms by (simp add: UnbondStaking_def MinFeePerKb_def)

text \<open>
  C6. While the daemon is not shutting down, \<open>UnbondStaking\<close> itself answers an error,
  whatever the channels of a request would deliver, unless the record exists, is not watched, is in state \<open>SENT_TO_BABYLON\<close> and the fee rate (the given
  one, or the estimate when none is given) is at least \<open>MinFeePerKb\<close> = 1000 sat/kb; in that
  case it has at most asked the fee estimator, nothing has been sent to the engine and the
  store is as it was.  A watched record gives the error
  \<open>cannot unbond watched transaction\<close>.  For an owned record in state \<open>SENT_TO_BABYLON\<close>
  a fee rate of 999 fails the fee check and a fee rate of 1000 passes it.
\<close>

theorem C6_unbond_preconditions:
  assumes "\<not> quit app"
  shows "(\<not> (\<exists>tx. GetTransaction (txTracker app) h = Inr tx \<and> \<not> Watched tx
                \<and> State tx = SENT_TO_BABYLON
                \<and> word_sle MinFeePerKb (case feeRate of None \<Rightarrow> EstimateFeePerKb app | Some f \<Rightarrow> f))
           \<longrightarrow> (\<exists>err. snd (UnbondStaking app sel h feeRate) = RetErr err)
              \<and> list_all (\<lambda>e. e = Estimate_FeePerKb) (fst (UnbondStaking app sel h feeRate))
              \<and> engineRun app (fst (UnbondStaking app sel h feeRate)) = ([], Continue app))
       \<and> (\<forall>tx. GetTransaction (txTracker app) h = Inr tx \<and> Watched tx \<longrightarrow>
             snd (UnbondStaking app sel h feeRate)
               = RetErr (Errorf ''cannot unbond watched transaction'' [])
             \<and> engineRun app (fst (UnbondStaking app sel h feeRate)) = ([], Continue app))
       \<and> (\<forall>tx. GetTransaction (txTracker app) h = Inr tx \<and> \<not> Watched tx
               \<and> State tx = SENT_TO_BABYLON \<longrightarrow>
             UnbondStaking app sel h (Some 999)
               = ([], RetErr (Errorf ''minimum fee rate is %d sat/kb'' [1000]))
             \<and> UnbondStaking app sel h (Some 1000) = UnbondStaking_submit app sel h tx 1000)"
proof (intro conjI allI impI)
  assume n: "\<not> (\<exists>tx. GetTransaction (txTracker app) h = Inr tx \<and> \<not> Watched tx
                \<and> State tx = SENT_TO_BABYLON
                \<and> word_sle MinFeePerKb (case feeRate of None \<Rightarrow> EstimateFeePerKb app | Some f \<Rightarrow> f))"
  from UnbondStaking_rejects [OF assms n, of sel] obtain err where
    r: "UnbondStaking app sel h feeRate =
          ((case feeRate of None \<Rightarrow> [Estimate_FeePerKb] | Some f \<Rightarrow> []), RetErr err)"
    by blast
  show "\<exists>err. snd (UnbondStaking app sel h feeRate) = RetErr err"
    by (simp add: r)
  show "list_all (\<lambda>e. e = Estimate_FeePerKb) (fst (UnbondStaking app sel h feeRate))"
    by (simp add: r split: option.splits)
  show "engineRun app (fst (UnbondStaking app sel h feeRate)) = ([], Continue app)"
    by (simp add: r UnbondStaking_effects_before_submit)
next
  fix tx
  assume w: "GetTransaction (txTracker app) h = Inr tx \<and> Watched tx"
  then have r: "UnbondStaking app sel h feeRate =
           ((case feeRate of None \<Rightarrow> [Estimate_FeePerKb] | Some f \<Rightarrow> []),
            RetErr (Errorf ''cannot unbond watched transaction'' []))"
    using UnbondStaking_watched [OF assms] by blast
  show "snd (UnbondStaking app sel h feeRate) = RetErr (Errorf ''cannot unbond watched transaction'' [])"
    by (simp add: r)
  show "engineRun app (fst (UnbondStaking app sel h feeRate)) = ([], Continue app)"
    by (simp add: r UnbondStaking_effects_before_submit)
next
  fix tx
  assume o: "GetTransaction (txTracker app) h = Inr tx \<and> \<not> Watched tx \<and> State tx = SENT_TO_BABYLON"
  have lo: "word_sless (999 :: Amount) MinFeePerKb"
    by (simp add: MinFeePerKb_def word_sless_alt)
  have hi: "word_sle MinFeePerKb (1000 :: Amount)"
    by (simp add: MinFeePerKb_def word_sle_eq)
  from o show "UnbondStaking app sel h (Some 999)
               = ([], RetErr (Errorf ''minimum fee rate is %d sat/kb'' [1000]))"
    using UnbondStaking_fee_too_low [OF assms _ _ _ lo] by blast
  from o show "UnbondStaking app sel h (Some 1000) = UnbondStaking_submit app sel h tx 1000"
    using UnbondStaking_accepts [OF assms _ _ _ hi] by blast
qed

theorem C6_unbond_preconditions_witness:
  "snd (UnbondStaking (exampleApp [exampleRecord 1 True SENT_TO_BABYLON,
                                   exampleRecord 2 False SENT_TO_BABYLON])
          (Sel_successChan 55) 1 (Some 2000))
     = RetErr (Errorf ''cannot unbond watched transaction'' [])
   \<and> UnbondStaking (exampleApp [exampleRecord 1 True SENT_TO_BABYLON,
                                exampleRecord 2 False SENT_TO_BABYLON])
          (Sel_successChan 55) 2 (Some 999)
     = ([], RetErr (Errorf ''minimum fee rate is %d sat/kb'' [1000]))
   \<and> snd (UnbondStaking (exampleApp [exampleRecord 1 True SENT_TO_BABYLON,
                                     exampleRecord 2 False SENT_TO_BABYLON])
          (Sel_successChan 55) 2 (Some 1000)) = RetVal 55"
proof -
  let ?app = "exampleApp [exampleRecord 1 True SENT_TO_BABYLON, exampleRecord 2 False SENT_TO_BABYLON]"
  have q: "\<not> quit ?app"
    by (simp add: exampleApp_def)
  have g1: "GetTransaction (txTracker ?app) 1 = Inr (exampleRecord 1 True SENT_TO_BABYLON)"
    by (simp add: GetTransaction_def exampleApp_def exampleRecord_def exampleTx_def)
  have g2: "GetTransaction (txTracker ?app) 2 = Inr (exampleRecord 2 False SENT_TO_BABYLON)"
    by (simp add: GetTransaction_def exampleApp_def exampleRecord_def exampleTx_def)
  have w: "Watched (exampleRecord 1 True SENT_TO_BABYLON)"
      "\<not> Watched (exampleRecord 2 False SENT_TO_BABYLON)"
      "State (exampleRecord 2 False SENT_TO_BABYLON) = SENT_TO_BABYLON"
    by (simp_all add: exampleRecord_def)
  have s: "snd (UnbondStaking_submit ?app (Sel_successChan 55) 2
                  (exampleRecord 2 False SENT_TO_BABYLON) 1000) = RetVal 55"
    by (simp add: UnbondStaking_submit_def exampleApp_def exampleBabylon_def exampleLib_def
          exampleWallet_def exampleRecord_def stakerPrivateKey_def awaitReply_def)
  show ?thesis
    using C6_unbond_preconditions [OF q, of 1 "Some 2000" "Sel_successChan 55"]
      C6_unbond_preconditions [OF q, of 2 "Some 2000" "Sel_successChan 55"] g1 g2 w s
    by simp
qed

text \<open>
  The error does not arrive over the error channel of a request.  Here the channels of the
  request could only deliver a success, no request is sent to the engine, and the error is
  returned all the same: it is the result of \<open>UnbondStaking\<close> itself.
\<close>

theorem C6_error_channel_counterexample:
  "UnbondStaking (exampleApp [exampleRecord 1 True SENT_TO_BABYLON]) (Sel_successChan 55) 1 (Some 2000)
     = ([], RetErr (Errorf ''cannot unbond watched transaction'' []))"
  by (simp add: UnbondStaking_def GetTransaction_def exampleApp_def exampleRecord_def exampleTx_def)

subsection \<open>Watched records\<close>

lemma waitForStakingTransactionConfirmation_no_wallet:
  "list_all (\<lambda>e. \<not> walletAccess e)
     (fst (waitForStakingTransactionConfirmation app h pk depth best))"
  by (simp add: waitForStakingTransactionConfirmation_def split: sum.splits)

lemma handleStaking_watched_request:
  assumes "isWatched req"
  shows "list_all (\<lambda>e. \<not> walletAccess e) (fst (handleStaking app (In_stakingRequestChan req)))"
  using assms waitForStakingTransactionConfirmation_no_wallet
    [of app "TxHash (r_stakingTx req)" "r_stakingOutputPkScript req"
        "r_requiredDepthOnBtcChain req" "currentBestBlockHeight app"]
  by (auto simp: Let_def split: sum.splits prod.splits option.splits)

lemma handleStaking_wallet_access:
  assumes "e \<in> set (fst (handleStaking app msg))" and "walletAccess e"
  shows "\<exists>req. msg = In_stakingRequestChan req \<and> \<not> isWatched req
               \<and> e = Wallet_SendRawTransaction (TxHash (r_stakingTx req))"
proof (cases msg)
  case (In_stakingRequestChan req)
  have "e \<notin> set (fst (waitForStakingTransactionConfirmation app (TxHash (r_stakingTx req))
                        (r_stakingOutputPkScript req) (r_requiredDepthOnBtcChain req)
                        (currentBestBlockHeight app)))"
    using waitForStakingTransactionConfirmation_no_wallet
            [of app "TxHash (r_stakingTx req)" "r_stakingOutputPkScript req"
                "r_requiredDepthOnBtcChain req" "currentBestBlockHeight app"] assms(2)
    by (auto simp: list_all_iff)
  with assms In_stakingRequestChan show ?thesis
    by (auto simp: Let_def split: sum.splits prod.splits option.splits if_splits)
qed (use assms in \<open>auto split: sum.splits prod.splits option.splits\<close>)

lemma handleStaking_watched_request_stored:
  assumes "isWatched req"
    and "AddWatchedTransaction (txTracker app) (r_stakingTx req) (r_stakingOutputIdx req)
           (r_stakingTxScript req) (r_stakerAddress req) = Inr st"
  shows "snd (handleStaking app (In_stakingRequestChan req)) = Continue (app\<lparr>txTracker := st\<rparr>)"
  using assms by (simp add: Let_def split: sum.splits prod.splits option.splits)

lemma UnbondStaking_watched_no_wallet:
  assumes "GetTransaction (txTracker app) h = Inr tx" and "Watched tx"
  shows "list_all (\<lambda>e. \<not> walletAccess e) (fst (UnbondStaking app sel h feeRate))"
  using assms by (simp add: UnbondStaking_def split: option.splits)

lemma SpendStake_watched:
  assumes "GetTransaction (txTracker app) h = Inr tx" and "Watched tx"
  shows "SpendStake app h =
           ([], if quit app then RetNil
                else RetErr (Errorf ''cannot spend staking which which is in watch only mode'' []))"
  using assms by (simp add: SpendStake_def)

text \<open>
  The guarded paths.  The handler of a staking request stores a watched transaction
  without any wallet access: no \<open>SendRawTransaction\<close>, no unlock, no key dump.  Indeed the only wallet access
  in a turn of the engine's loop, whatever the message, is the broadcast of the staking
  transaction of an owned request.  For a watched record, \<open>UnbondStaking\<close> and \<open>SpendStake\<close>
  touch the wallet in no call, and, unless the daemon is shutting down, they reject the
  record with their watched-transaction errors.
\<close>

lemma watched_guarded_paths:
  "(isWatched req \<longrightarrow>
       list_all (\<lambda>e. \<not> walletAccess e) (fst (handleStaking app (In_stakingRequestChan req)))
     \<and> (\<forall>st. AddWatchedTransaction (txTracker app) (r_stakingTx req) (r_stakingOutputIdx req)
               (r_stakingTxScript req) (r_stakerAddress req) = Inr st \<longrightarrow>
             snd (handleStaking app (In_stakingRequestChan req)) = Continue (app\<lparr>txTracker := st\<rparr>)))
   \<and> (\<forall>e. e \<in> set (fst (handleStaking app msg)) \<and> walletAccess e \<longrightarrow>
         (\<exists>owned. msg = In_stakingRequestChan owned \<and> \<not> isWatched owned
                  \<and> e = Wallet_SendRawTransaction (TxHash (r_stakingTx owned))))
   \<and> (GetTransaction (txTracker app) h = Inr tx \<and> Watched tx \<longrightarrow>
       list_all (\<lambda>e. \<not> walletAccess e) (fst (UnbondStaking app sel h feeRate))
     \<and> (\<not> quit app \<longrightarrow>
          snd (UnbondStaking app sel h feeRate)
            = RetErr (Errorf ''cannot unbond watched transaction'' []))
     \<and> fst (SpendStake app h) = []
     \<and> (\<not> quit app \<longrightarrow>
          snd (SpendStake app h)
            = RetErr (Errorf ''cannot spend staking which which is in watch only mode'' [])))"
proof (intro conjI impI allI)
  assume "isWatched req"
  then show "list_all (\<lambda>e. \<not> walletAccess e) (fst (handleStaking app (In_stakingRequestChan req)))"
    by (rule handleStaking_watched_request)
next
  fix st
  assume "isWatched req"
    and "AddWatchedTransaction (txTracker app) (r_stakingTx req) (r_stakingOutputIdx req)
           (r_stakingTxScript req) (r_stakerAddress req) = Inr st"
  then show "snd (handleStaking app (In_stakingRequestChan req)) = Continue (app\<lparr>txTracker := st\<rparr>)"
    by (rule handleStaking_watched_request_stored)
next
  fix e
  assume "e \<in> set (fst (handleStaking app msg)) \<and> walletAccess e"
  then show "\<exists>owned. msg = In_stakingRequestChan owned \<and> \<not> isWatched owned
                  \<and> e = Wallet_SendRawTransaction (TxHash (r_stakingTx owned))"
    using handleStaking_wallet_access [of e app msg] by blast
next
  assume w: "GetTransaction (txTracker app) h = Inr tx \<and> Watched tx"
  then show "list_all (\<lambda>e. \<not> walletAccess e) (fst (UnbondStaking app sel h feeRate))"
    using UnbondStaking_watched_no_wallet by blast
  from w show "fst (SpendStake app h) = []"
    using SpendStake_watched [of app h tx] by simp
  assume q: "\<not> quit app"
  from w q show "snd (UnbondStaking app sel h feeRate)
            = RetErr (Errorf ''cannot unbond watched transaction'' [])"
    using UnbondStaking_watched [of app h tx sel feeRate] by simp
  from w q show "snd (SpendStake app h)
            = RetErr (Errorf ''cannot spend staking which which is in watch only mode'' [])"
    using SpendStake_watched [of app h tx] by simp
qed

lemma watched_guarded_paths_instance:
  "list_all (\<lambda>e. \<not> walletAccess e)
     (fst (handleStaking (exampleApp []) (In_stakingRequestChan exampleWatchedRequest)))
   \<and> snd (UnbondStaking (exampleApp [exampleRecord 1 True SENT_TO_BABYLON]) (Sel_successChan 55) 1 None)
       = RetErr (Errorf ''cannot unbond watched transaction'' [])
   \<and> SpendStake (exampleApp [exampleRecord 1 True SENT_TO_BABYLON]) 1
       = ([], RetErr (Errorf ''cannot spend staking which which is in watch only mode'' []))"
proof -
  let ?app = "exampleApp [exampleRecord 1 True SENT_TO_BABYLON]"
  have i: "isWatched exampleWatchedRequest"
    by (simp add: isWatched_def exampleWatchedRequest_def)
  have g: "GetTransaction (txTracker ?app) 1 = Inr (exampleRecord 1 True SENT_TO_BABYLON)"
    by (simp add: GetTransaction_def exampleApp_def exampleRecord_def exampleTx_def)
  have w: "Watched (exampleRecord 1 True SENT_TO_BABYLON)" "\<not> quit ?app"
    by (simp_all add: exampleRecord_def exampleApp_def)
  show ?thesis
    using watched_guarded_paths
            [where req = exampleWatchedRequest and app = "exampleApp []" and h = 1
               and tx = "exampleRecord 1 True SENT_TO_BABYLON"]
      watched_guarded_paths
            [where req = exampleWatchedRequest and app = ?app and h = 1
               and tx = "exampleRecord 1 True SENT_TO_BABYLON" and sel = "Sel_successChan 55"
               and feeRate = None] i g w
    by (simp add: prod_eq_iff)
qed

text \<open>
  A watched record on the unbonding path: the reconciler, the engine and the broadcasting
  goroutine.
\<close>

lemma attempt_watched:
  "sendUnbondingTxToBtcWithWitness (undelegatedApp st) 1 ''staker''
      (watchedRecord UNBONDING_SIGNATURES_RECEIVED) exampleUnbonding
     = ([Wallet_UnlockWallet 15, Wallet_DumpPrivateKey ''staker'', Wallet_SendRawTransaction 55], Done)"
  by (simp add: sendUnbondingTxToBtcWithWitness_def stakerPrivateKey_def undelegatedApp_def
        exampleApp_def exampleWallet_def exampleLib_def exampleUnbonding_def exampleTx_def
        defaultWalletUnlockTimeout_def)

text \<open>
  C2, evaluated.  The store holds one watched record in state \<open>SENT_TO_BABYLON\<close>, and the
  coordinator reports an undelegation for it.  The reconciler pushes the confirmation of an
  unbonding request, upon which the engine moves the record to \<open>UNBONDING_STARTED\<close> and
  starts the signature polling.  When the signatures arrive, the engine moves the record to
  \<open>UNBONDING_SIGNATURES_RECEIVED\<close> and starts
  \<open>sendUnbondingTxToBtcAndWaitForConfirmation\<close> on the record as stored, which is still
  watched.  That goroutine unlocks the wallet, dumps the private key of the staker address
  and broadcasts the unbonding transaction.  No step of this path looks at \<open>Watched\<close>.
\<close>

theorem C2_watched_record_reaches_key_dump:
  "Watched (watchedRecord UNBONDING_SIGNATURES_RECEIVED)
   \<and> checkTransactionsStatus (undelegatedApp [exampleRecord 1 True SENT_TO_BABYLON])
     = ([Babylon_Params, Babylon_QueryDelegationInfo 1,
         PushOrQuit_sendUnbondingRequestConfirmChan
           \<lparr>u_stakingTxHash = 1, u_unbondingTransaction = exampleTx 55,
            u_unbondingTransactionScript = [5]\<rparr>], Done)
   \<and> engineRun (undelegatedApp [exampleRecord 1 True SENT_TO_BABYLON])
        (fst (checkTransactionsStatus (undelegatedApp [exampleRecord 1 True SENT_TO_BABYLON])))
     = ([Store_Write 1 UNBONDING_STARTED, Spawn (Go_checkForUnbondingTxSignaturesOnBabylon 1),
         Send_successChan 55],
        Continue (undelegatedApp [watchedRecord UNBONDING_STARTED]))
   \<and> handleStaking (undelegatedApp [watchedRecord UNBONDING_STARTED])
        (In_unbondingSignaturesConfirmedChan
           \<lparr>s_stakingTxHash = 1, s_validatorUnbondingSignature = 3, s_juryUnbondingSignature = 5\<rparr>)
     = ([Store_Write 1 UNBONDING_SIGNATURES_RECEIVED,
         Spawn (Go_sendUnbondingTxToBtcAndWaitForConfirmation 1 ''staker'')],
        Continue (undelegatedApp [watchedRecord UNBONDING_SIGNATURES_RECEIVED]))
   \<and> mustGetTransactionAndStakerAddress (undelegatedApp [watchedRecord UNBONDING_SIGNATURES_RECEIVED]) 1
     = Inr (watchedRecord UNBONDING_SIGNATURES_RECEIVED, ''staker'')
   \<and> sendUnbondingTxToBtcAndWaitForConfirmation
        (undelegatedApp [watchedRecord UNBONDING_SIGNATURES_RECEIVED]) 1 ''staker''
        (watchedRecord UNBONDING_SIGNATURES_RECEIVED) exampleUnbonding
        [\<lparr>world = undelegatedApp [watchedRecord UNBONDING_SIGNATURES_RECEIVED], wake = TimerFired\<rparr>,
         \<lparr>world = undelegatedApp [watchedRecord UNBONDING_SIGNATURES_RECEIVED], wake = TimerFired\<rparr>]
        [Conf_Confirmed 5 120]
     = Some ([Wallet_UnlockWallet 15, Wallet_DumpPrivateKey ''staker'', Wallet_SendRawTransaction 55,
              Notifier_RegisterConfirmationsNtfn 55 [1, 2, 3] 6 100,
              PushOrQuit_unbondingConfirmedOnBtcChan
                \<lparr>b_stakingTxHash = 1, b_blockHash = 5, b_blockHeight = 120\<rparr>,
              Notifier_Cancel 31], Done)"
proof (intro conjI)
  show "Watched (watchedRecord UNBONDING_SIGNATURES_RECEIVED)"
    by (simp add: watchedRecord_def exampleRecord_def)
  have rec: "checkTransactionsStatus (undelegatedApp [exampleRecord 1 True SENT_TO_BABYLON])
     = ([Babylon_Params, Babylon_QueryDelegationInfo 1,
         PushOrQuit_sendUnbondingRequestConfirmChan
           \<lparr>u_stakingTxHash = 1, u_unbondingTransaction = exampleTx 55,
            u_unbondingTransactionScript = [5]\<rparr>], Done)"
    by (simp add: checkTransactionsStatus_def onBabylonEntry_def undelegatedApp_def exampleApp_def
          exampleBabylon_def exampleRecord_def exampleTx_def)
  show "checkTransactionsStatus (undelegatedApp [exampleRecord 1 True SENT_TO_BABYLON])
     = ([Babylon_Params, Babylon_QueryDelegationInfo 1,
         PushOrQuit_sendUnbondingRequestConfirmChan
           \<lparr>u_stakingTxHash = 1, u_unbondingTransaction = exampleTx 55,
            u_unbondingTransactionScript = [5]\<rparr>], Done)"
    by (rule rec)
  show "engineRun (undelegatedApp [exampleRecord 1 True SENT_TO_BABYLON])
        (fst (checkTransactionsStatus (undelegatedApp [exampleRecord 1 True SENT_TO_BABYLON])))
     = ([Store_Write 1 UNBONDING_STARTED, Spawn (Go_checkForUnbondingTxSignaturesOnBabylon 1),
         Send_successChan 55],
        Continue (undelegatedApp [watchedRecord UNBONDING_STARTED]))"
    by (subst rec)
       (simp add: SetTxUnbondingStarted_def transition_def GetTransaction_def
          undelegatedApp_def exampleApp_def watchedRecord_def exampleRecord_def exampleTx_def
          exampleUnbonding_def)
  show "handleStaking (undelegatedApp [watchedRecord UNBONDING_STARTED])
        (In_unbondingSignaturesConfirmedChan
           \<lparr>s_stakingTxHash = 1, s_validatorUnbondingSignature = 3, s_juryUnbondingSignature = 5\<rparr>)
     = ([Store_Write 1 UNBONDING_SIGNATURES_RECEIVED,
         Spawn (Go_sendUnbondingTxToBtcAndWaitForConfirmation 1 ''staker'')],
        Continue (undelegatedApp [watchedRecord UNBONDING_SIGNATURES_RECEIVED]))"
    by (simp add: SetTxUnbondingSignaturesReceived_def transition_def GetTransaction_def
          mustGetTransactionAndStakerAddress_def undelegatedApp_def exampleApp_def exampleLib_def
          watchedRecord_def exampleRecord_def exampleTx_def)
  show "mustGetTransactionAndStakerAddress (undelegatedApp [watchedRecord UNBONDING_SIGNATURES_RECEIVED]) 1
     = Inr (watchedRecord UNBONDING_SIGNATURES_RECEIVED, ''staker'')"
    by (simp add: mustGetTransactionAndStakerAddress_def GetTransaction_def undelegatedApp_def
          exampleApp_def exampleLib_def watchedRecord_def exampleRecord_def exampleTx_def)
  have q: "\<not> quit (undelegatedApp st)" for st
    by (simp add: undelegatedApp_def exampleApp_def)
  have reg: "RegisterConfirmationsNtfn (undelegatedApp st) h pk n hint = Inr 31"
      "currentBestBlockHeight (undelegatedApp st) = 100" for st h pk n hint
    by (simp_all add: undelegatedApp_def exampleApp_def)
  have send: "sendUnbondingTxToBtc 1 ''staker'' (watchedRecord UNBONDING_SIGNATURES_RECEIVED)
        exampleUnbonding
        [\<lparr>world = undelegatedApp [watchedRecord UNBONDING_SIGNATURES_RECEIVED], wake = TimerFired\<rparr>,
         \<lparr>world = undelegatedApp [watchedRecord UNBONDING_SIGNATURES_RECEIVED], wake = TimerFired\<rparr>]
     = Some ([Wallet_UnlockWallet 15, Wallet_DumpPrivateKey ''staker'', Wallet_SendRawTransaction 55,
              Notifier_RegisterConfirmationsNtfn 55 [1, 2, 3] 6 100], Returns (Some 31))"
    using attempt_watched [of "[watchedRecord UNBONDING_SIGNATURES_RECEIVED]"]
    by (simp add: reg UnbondingTxConfirmations_def Let_def exampleUnbonding_def exampleTx_def)
  show "sendUnbondingTxToBtcAndWaitForConfirmation
        (undelegatedApp [watchedRecord UNBONDING_SIGNATURES_RECEIVED]) 1 ''staker''
        (watchedRecord UNBONDING_SIGNATURES_RECEIVED) exampleUnbonding
        [\<lparr>world = undelegatedApp [watchedRecord UNBONDING_SIGNATURES_RECEIVED], wake = TimerFired\<rparr>,
         \<lparr>world = undelegatedApp [watchedRecord UNBONDING_SIGNATURES_RECEIVED], wake = TimerFired\<rparr>]
        [Conf_Confirmed 5 120]
     = Some ([Wallet_UnlockWallet 15, Wallet_DumpPrivateKey ''staker'', Wallet_SendRawTransaction 55,
              Notifier_RegisterConfirmationsNtfn 55 [1, 2, 3] 6 100,
              PushOrQuit_unbondingConfirmedOnBtcChan
                \<lparr>b_stakingTxHash = 1, b_blockHash = 5, b_blockHeight = 120\<rparr>,
              Notifier_Cancel 31], Done)"
    unfolding sendUnbondingTxToBtcAndWaitForConfirmation_def
    by (subst send) (simp add: q)
qed

subsection \<open>The quit channel and the public request operations\<close>

lemma quit_at_entry:
  assumes "quit app"
  shows "StakeFunds app sel a amount v t = ([], RetNil)"
    and "UnbondStaking app sel h feeRate = ([], RetNil)"
    and "SpendStake app h = ([], RetNil)"
  using assms by (simp_all add: StakeFunds_def UnbondStaking_def SpendStake_def)

lemma quit_at_reply:
  "awaitReply Sel_quit = RetNil"
  by (simp add: awaitReply_def)

lemma handleStaking_writes_one_channel:
  "length (filter (\<lambda>e. (\<exists>err. e = Send_errChan err) \<or> (\<exists>h. e = Send_successChan h))
             (fst (handleStaking app (In_stakingRequestChan req)))) = 1"
  by (auto simp: Let_def waitForStakingTransactionConfirmation_def
       split: sum.splits prod.splits option.splits)

text \<open>
  C9, evaluated.  After the quit channel is closed, \<open>StakeFunds\<close>, \<open>UnbondStaking\<close> and
  \<open>SpendStake\<close> answer a nil result with a nil error at their first statement.
  \<open>WatchStaking\<close> has no such check: with the coordinator out of reach it answers an error.
\<close>

theorem C9_WatchStaking_after_quit:
  "StakeFunds stoppedApp (Sel_successChan 42) ''staker'' 5000 3 206 = ([], RetNil)
   \<and> UnbondStaking stoppedApp (Sel_successChan 55) 2 None = ([], RetNil)
   \<and> SpendStake stoppedApp 2 = ([], RetNil)
   \<and> WatchStaking stoppedApp Sel_quit (exampleTx 1) [9] (exampleTx 2) 3 5 ''staker'' 19
       = ([Babylon_Params],
          RetErr (ErrorfW ''failed to watch staking tx. Failed to get params: %w''
                    (ErrExternal ''connection refused'')))"
  by (simp add: StakeFunds_def UnbondStaking_def SpendStake_def WatchStaking_def stoppedApp_def
        exampleBabylon_def)

subsection \<open>Spending: the wait for the confirmation of the spend transaction\<close>

lemma engineRun_nothing_delivered:
  "list_all (\<lambda>e. delivered e = None) es \<Longrightarrow> engineRun app es = ([], Continue app)"
  by (induction es) simp_all

lemma stakerPrivateKey_not_delivered:
  "stakerPrivateKey app a = (e, r) \<Longrightarrow> list_all (\<lambda>e. delivered e = None) e"
  by (auto simp: stakerPrivateKey_def split: option.splits sum.splits)

lemma SpendStake_not_delivered:
  "list_all (\<lambda>e. delivered e = None) (fst (SpendStake app h))"
  by (auto simp: SpendStake_def Let_def dest: stakerPrivateKey_not_delivered
        split: sum.splits prod.splits list.splits)

lemma SpendStake_registers:
  assumes "SpendStake app h = (e, RetVal (spendTxHash, v))"
  shows "\<exists>pk ev.
           RegisterConfirmationsNtfn app spendTxHash pk SpendStakeTxConfirmations
             (currentBestBlockHeight app) = Inr ev
         \<and> Notifier_RegisterConfirmationsNtfn spendTxHash pk 3 (currentBestBlockHeight app) \<in> set e
         \<and> Spawn (Go_waitForSpendConfirmation h ev) \<in> set e"
  using assms
  by (fastforce simp: SpendStake_def Let_def SpendStakeTxConfirmations_def
        split: sum.splits prod.splits list.splits if_splits)

lemma waitForSpendConfirmation_delivery:
  "engineRun app (waitForSpendConfirmation app w h ev) =
     (if \<not> quit app \<and> w = Spend_Confirmed
      then (case SetTxSpentOnBtc (txTracker app) h of
              Inl err \<Rightarrow> ([], Exit ''Error setting state for tx'')
            | Inr st \<Rightarrow> ([Store_Write h SPENT_ON_BTC], Continue (app\<lparr>txTracker := st\<rparr>)))
      else ([], Continue app))"
  by (cases w) (simp_all add: waitForSpendConfirmation_def split: sum.splits)

lemma SetTxSpentOnBtc_ok:
  assumes "GetTransaction st h = Inr tx"
    and "State tx = SENT_TO_BABYLON \<or> State tx = UNBONDING_CONFIRMED_ON_BTC"
  shows "SetTxSpentOnBtc st h =
           Inr (map (\<lambda>x. if TxHash (StakingTx x) = h then x\<lparr>State := SPENT_ON_BTC\<rparr> else x) st)"
  using assms by (auto simp: SetTxSpentOnBtc_def transition_def)

text \<open>
  C7. \<open>SpendStake\<close> writes no state itself: on success it has registered a watch for
  \<open>SpendStakeTxConfirmations\<close> = 3 confirmations of the spend transaction and started
  \<open>waitForSpendConfirmation\<close> on the event of that watch.  The helper waits at most
  \<open>timeoutWaitingForSpendConfirmation\<close>, two hours.  When the timeout fires it ends without
  sending anything, so the engine writes nothing and the store is as it was.  The engine
  writes \<open>SPENT_ON_BTC\<close> in the wake of the helper only when the confirmation fired (and the
  daemon was not shutting down); it then moves a record in state \<open>SENT_TO_BABYLON\<close> or
  \<open>UNBONDING_CONFIRMED_ON_BTC\<close> to \<open>SPENT_ON_BTC\<close>.
\<close>

theorem C7_spend_confirmation:
  "timeoutWaitingForSpendConfirmation = 2 * 60 * 60 * 1000000000
   \<and> engineRun app (fst (SpendStake app h)) = ([], Continue app)
   \<and> (\<forall>e spendTxHash v. SpendStake app h = (e, RetVal (spendTxHash, v)) \<longrightarrow>
        (\<exists>pk ev. RegisterConfirmationsNtfn app spendTxHash pk 3 (currentBestBlockHeight app) = Inr ev
           \<and> Notifier_RegisterConfirmationsNtfn spendTxHash pk 3 (currentBestBlockHeight app) \<in> set e
           \<and> Spawn (Go_waitForSpendConfirmation h ev) \<in> set e))
   \<and> (\<not> quit app \<longrightarrow>
        waitForSpendConfirmation app Spend_Timeout h ev = [Sleep timeoutWaitingForSpendConfirmation])
   \<and> engineRun app (waitForSpendConfirmation app Spend_Timeout h ev) = ([], Continue app)
   \<and> (w \<noteq> Spend_Confirmed \<or> quit app \<longrightarrow>
        engineRun app (waitForSpendConfirmation app w h ev) = ([], Continue app))
   \<and> (\<forall>h' s. Store_Write h' s \<in> set (fst (engineRun app (waitForSpendConfirmation app w h ev))) \<longrightarrow>
        w = Spend_Confirmed \<and> \<not> quit app \<and> h' = h \<and> s = SPENT_ON_BTC)
   \<and> (\<forall>tx. \<not> quit app \<and> GetTransaction (txTracker app) h = Inr tx
          \<and> (State tx = SENT_TO_BABYLON \<or> State tx = UNBONDING_CONFIRMED_ON_BTC) \<longrightarrow>
        engineRun app (waitForSpendConfirmation app Spend_Confirmed h ev) =
          ([Store_Write h SPENT_ON_BTC],
           Continue (app\<lparr>txTracker :=
              map (\<lambda>x. if TxHash (StakingTx x) = h then x\<lparr>State := SPENT_ON_BTC\<rparr> else x)
                (txTracker app)\<rparr>)))"
proof (intro conjI allI impI)
  show "timeoutWaitingForSpendConfirmation = 2 * 60 * 60 * 1000000000"
    by (simp add: timeoutWaitingForSpendConfirmation_def hour_def second_def nanosecond_def)
  show "engineRun app (fst (SpendStake app h)) = ([], Continue app)"
    by (rule engineRun_nothing_delivered) (rule SpendStake_not_delivered)
  show "engineRun app (waitForSpendConfirmation app Spend_Timeout h ev) = ([], Continue app)"
    by (simp add: waitForSpendConfirmation_delivery)
next
  fix e spendTxHash v
  assume "SpendStake app h = (e, RetVal (spendTxHash, v))"
  from SpendStake_registers [OF this]
  show "\<exists>pk ev. RegisterConfirmationsNtfn app spendTxHash pk 3 (currentBestBlockHeight app) = Inr ev
           \<and> Notifier_RegisterConfirmationsNtfn spendTxHash pk 3 (currentBestBlockHeight app) \<in> set e
           \<and> Spawn (Go_waitForSpendConfirmation h ev) \<in> set e"
    by (simp add: SpendStakeTxConfirmations_def)
next
  assume "\<not> quit app"
  then show "waitForSpendConfirmation app Spend_Timeout h ev = [Sleep timeoutWaitingForSpendConfirmation]"
    by (simp add: waitForSpendConfirmation_def)
next
  assume "w \<noteq> Spend_Confirmed \<or> quit app"
  then show "engineRun app (waitForSpendConfirmation app w h ev) = ([], Continue app)"
    by (auto simp: waitForSpendConfirmation_delivery)
next
  fix h' s
  assume a: "Store_Write h' s \<in> set (fst (engineRun app (waitForSpendConfirmation app w h ev)))"
  then have c: "w = Spend_Confirmed \<and> \<not> quit app"
    by (auto simp: waitForSpendConfirmation_delivery split: if_splits)
  from a c have "h' = h \<and> s = SPENT_ON_BTC"
    by (auto simp: waitForSpendConfirmation_delivery split: sum.splits)
  with c show "w = Spend_Confirmed" "\<not> quit app" "h' = h" "s = SPENT_ON_BTC"
    by simp_all
next
  fix tx
  assume "\<not> quit app \<and> GetTransaction (txTracker app) h = Inr tx
          \<and> (State tx = SENT_TO_BABYLON \<or> State tx = UNBONDING_CONFIRMED_ON_BTC)"
  then show "engineRun app (waitForSpendConfirmation app Spend_Confirmed h ev) =
          ([Store_Write h SPENT_ON_BTC],
           Continue (app\<lparr>txTracker :=
              map (\<lambda>x. if TxHash (StakingTx x) = h then x\<lparr>State := SPENT_ON_BTC\<rparr> else x)
                (txTracker app)\<rparr>))"
    using SetTxSpentOnBtc_ok [of "txTracker app" h tx]
    by (auto simp: waitForSpendConfirmation_delivery)
qed

theorem C7_spend_confirmation_witness:
  "engineRun (exampleApp [exampleRecord 2 False SENT_TO_BABYLON])
      (waitForSpendConfirmation (exampleApp [exampleRecord 2 False SENT_TO_BABYLON]) Spend_Timeout 2 31)
     = ([], Continue (exampleApp [exampleRecord 2 False SENT_TO_BABYLON]))
   \<and> fst (engineRun (exampleApp [exampleRecord 2 False SENT_TO_BABYLON])
      (waitForSpendConfirmation (exampleApp [exampleRecord 2 False SENT_TO_BABYLON]) Spend_Confirmed 2 31))
     = [Store_Write 2 SPENT_ON_BTC]
   \<and> fst (SpendStake (exampleApp [exampleRecord 2 False SENT_TO_BABYLON]) 2)
     = [Estimate_FeePerKb, Wallet_UnlockWallet 15, Wallet_DumpPrivateKey ''staker'',
        Wallet_SendRawTransaction 77, Notifier_RegisterConfirmationsNtfn 77 [6] 3 100,
        Spawn (Go_waitForSpendConfirmation 2 31)]"
proof -
  let ?app = "exampleApp [exampleRecord 2 False SENT_TO_BABYLON]"
  have q: "\<not> quit ?app"
    by (simp add: exampleApp_def)
  have g: "GetTransaction (txTracker ?app) 2 = Inr (exampleRecord 2 False SENT_TO_BABYLON)"
    by (simp add: GetTransaction_def exampleApp_def exampleRecord_def exampleTx_def)
  have st: "State (exampleRecord 2 False SENT_TO_BABYLON) = SENT_TO_BABYLON"
    by (simp add: exampleRecord_def)
  have sp: "fst (SpendStake ?app 2)
      = [Estimate_FeePerKb, Wallet_UnlockWallet 15, Wallet_DumpPrivateKey ''staker'',
         Wallet_SendRawTransaction 77, Notifier_RegisterConfirmationsNtfn 77 [6] 3 100,
         Spawn (Go_waitForSpendConfirmation 2 31)]"
    by (simp add: SpendStake_def GetTransaction_def exampleApp_def exampleRecord_def exampleTx_def
          exampleLib_def exampleWallet_def stakerPrivateKey_def defaultWalletUnlockTimeout_def
          SpendStakeTxConfirmations_def Let_def)
  show ?thesis
    using C7_spend_confirmation [where app = ?app and h = 2 and ev = 31 and w = Spend_Timeout]
      q g st sp
    by simp
qed

subsection \<open>Broadcasting the unbonding transaction: the two retry loops\<close>










subsection \<open>The service client\<close>

text \<open>
  C10. \<open>Unbond\<close> of the service client: when the client cannot be created, or the fee rate
  is negative, it answers an error and makes no remote call.  With a client at hand, a
  negative fee rate gives the error \<open>fee rate must be non-negative\<close>; a fee rate of zero
  makes the one remote call \<open>UnbondStaking\<close> with a nil fee rate; a positive fee rate makes
  it with exactly that value; and the answer of the remote call is handed on.
\<close>

theorem C10_client_Unbond:
  "(\<forall>err. newClient d = Inl err \<longrightarrow> Unbond newClient d h feeRate = ([], RetErr err))
   \<and> (sint feeRate < 0 \<longrightarrow>
        fst (Unbond newClient d h feeRate) = []
      \<and> (\<exists>err. snd (Unbond newClient d h feeRate) = RetErr err))
   \<and> (\<forall>client. newClient d = Inr client \<longrightarrow>
        (sint feeRate < 0 \<longrightarrow>
           Unbond newClient d h feeRate = ([], RetErr (Errorf ''fee rate must be non-negative'' [])))
      \<and> (feeRate = 0 \<longrightarrow>
           Unbond newClient d h feeRate =
             ([Rpc_UnbondStaking h None],
              case client h None of Inl err \<Rightarrow> RetErr err | Inr result \<Rightarrow> RetVal result))
      \<and> (0 < sint feeRate \<longrightarrow>
           Unbond newClient d h feeRate =
             ([Rpc_UnbondStaking h (Some feeRate)],
              case client h (Some feeRate) of Inl err \<Rightarrow> RetErr err | Inr result \<Rightarrow> RetVal result)))"
  by (cases "newClient d")
     (auto simp: Unbond_def word_sless_alt Let_def split: sum.splits)

theorem C10_client_Unbond_witness:
  "Unbond (\<lambda>d. Inr (\<lambda>h fr. Inr 55)) ''127.0.0.1:15912'' ''abcd'' (- 1)
     = ([], RetErr (Errorf ''fee rate must be non-negative'' []))
   \<and> Unbond (\<lambda>d. Inr (\<lambda>h fr. Inr 55)) ''127.0.0.1:15912'' ''abcd'' 0
     = ([Rpc_UnbondStaking ''abcd'' None], RetVal 55)
   \<and> Unbond (\<lambda>d. Inr (\<lambda>h fr. Inr 55)) ''127.0.0.1:15912'' ''abcd'' 2000
     = ([Rpc_UnbondStaking ''abcd'' (Some 2000)], RetVal 55)"
  using C10_client_Unbond [of "\<lambda>d. Inr (\<lambda>h fr. Inr 55)" "''127.0.0.1:15912''" "''abcd''" "- 1"]
    C10_client_Unbond [of "\<lambda>d. Inr (\<lambda>h fr. Inr 55)" "''127.0.0.1:15912''" "''abcd''" 0]
    C10_client_Unbond [of "\<lambda>d. Inr (\<lambda>h fr. Inr 55)" "''127.0.0.1:15912''" "''abcd''" 2000]
  by simp

subsection \<open>The startup reconciler\<close>

lemma loopConfirmedOnBtc_returns_early:
  assumes "IsTxAlreadyPartOfDelegation (babylonClient app) h = Inr False"
  shows "loopConfirmedOnBtc app p (h # rest) = loopConfirmedOnBtc app p [h]"
    and "snd (loopConfirmedOnBtc app p (h # rest)) \<noteq> None"
  using assms by (auto split: sum.splits prod.splits option.splits)

lemma scan_exampleStore:
  "scan exampleStore ([], [], []) = Inr ([], [1, 3], [(2, UNBONDING_STARTED)])"
  by (simp add: exampleStore_def exampleRecord_def exampleTx_def)

lemma lookup_exampleStore:
  "mustGetTransactionAndStakerAddress ((exampleApp exampleStore)\<lparr>wc := w\<rparr>) 1
     = Inr (exampleRecord 1 False CONFIRMED_ON_BTC, ''staker'')"
  by (simp add: mustGetTransactionAndStakerAddress_def GetTransaction_def exampleApp_def
        exampleStore_def exampleRecord_def exampleTx_def exampleLib_def)

text \<open>
  C1, evaluated.  The store holds a confirmed record (1), a record whose unbonding has
  started (2) and a second confirmed record (3); the coordinator knows none of them as a
  delegation.  With the wallet reporting record 1 in chain, the reconciler resubmits
  record 1 and returns; with the wallet not finding it, the reconciler logs the error and
  returns.  In both runs record 3 is never classified and the signature polling for record 2
  is never started, although the polling is started when record 2 is alone in the store,
  and all three records are handled when the coordinator already knows the confirmed ones.
\<close>

theorem C1_reconciler_returns_after_confirmed_record:
  "checkTransactionsStatus (exampleApp exampleStore)
     = ([Babylon_Params, Babylon_IsTxAlreadyPartOfDelegation 1, Wallet_TxDetails 1 [1, 2, 3],
         Call_sendDelegationWithTxToBabylon
           \<lparr>d_txHash = 1, d_txIndex = 1, d_inclusionBlock = 3, d_requiredInclusionBlockDepth = 6\<rparr>],
        Done)
   \<and> checkTransactionsStatus
        ((exampleApp exampleStore)\<lparr>wc := exampleWallet\<lparr>TxDetails := (\<lambda>h pk. Inr (None, TxNotFound))\<rparr>\<rparr>)
     = ([Babylon_Params, Babylon_IsTxAlreadyPartOfDelegation 1, Wallet_TxDetails 1 [1, 2, 3],
         LogError ''Already confirmed transaction not found on btc chain.''],
        Done)
   \<and> checkTransactionsStatus (exampleApp [exampleRecord 2 False UNBONDING_STARTED])
     = ([Babylon_Params, Spawn (Go_checkForUnbondingTxSignaturesOnBabylon 2)], Done)
   \<and> checkTransactionsStatus
        ((exampleApp exampleStore)\<lparr>babylonClient :=
            exampleBabylon\<lparr>IsTxAlreadyPartOfDelegation := (\<lambda>h. Inr True)\<rparr>\<rparr>)
     = ([Babylon_Params,
         Babylon_IsTxAlreadyPartOfDelegation 1, Send_sendDelegationResponseChan 1 None,
         Babylon_IsTxAlreadyPartOfDelegation 3, Send_sendDelegationResponseChan 3 None,
         Spawn (Go_checkForUnbondingTxSignaturesOnBabylon 2)],
        Done)"
proof (intro conjI)
  have sp: "stakingPkScript (exampleRecord 1 False CONFIRMED_ON_BTC) = Some [1, 2, 3]"
    by (simp add: stakingPkScript_def exampleRecord_def exampleTx_def)
  show "checkTransactionsStatus (exampleApp exampleStore)
     = ([Babylon_Params, Babylon_IsTxAlreadyPartOfDelegation 1, Wallet_TxDetails 1 [1, 2, 3],
         Call_sendDelegationWithTxToBabylon
           \<lparr>d_txHash = 1, d_txIndex = 1, d_inclusionBlock = 3, d_requiredInclusionBlockDepth = 6\<rparr>],
        Done)"
    using lookup_exampleStore [of exampleWallet] sp
    by (simp add: checkTransactionsStatus_def scan_exampleStore exampleApp_def exampleBabylon_def
          exampleWallet_def exampleParams_def)
  show "checkTransactionsStatus
        ((exampleApp exampleStore)\<lparr>wc := exampleWallet\<lparr>TxDetails := (\<lambda>h pk. Inr (None, TxNotFound))\<rparr>\<rparr>)
     = ([Babylon_Params, Babylon_IsTxAlreadyPartOfDelegation 1, Wallet_TxDetails 1 [1, 2, 3],
         LogError ''Already confirmed transaction not found on btc chain.''],
        Done)"
    using lookup_exampleStore [of "exampleWallet\<lparr>TxDetails := (\<lambda>h pk. Inr (None, TxNotFound))\<rparr>"] sp
    by (simp add: checkTransactionsStatus_def scan_exampleStore exampleApp_def exampleBabylon_def
          exampleWallet_def exampleParams_def)
  show "checkTransactionsStatus (exampleApp [exampleRecord 2 False UNBONDING_STARTED])
     = ([Babylon_Params, Spawn (Go_checkForUnbondingTxSignaturesOnBabylon 2)], Done)"
    by (simp add: checkTransactionsStatus_def onBabylonEntry_def exampleApp_def exampleBabylon_def
          exampleRecord_def exampleTx_def)
  show "checkTransactionsStatus
        ((exampleApp exampleStore)\<lparr>babylonClient :=
            exampleBabylon\<lparr>IsTxAlreadyPartOfDelegation := (\<lambda>h. Inr True)\<rparr>\<rparr>)
     = ([Babylon_Params,
         Babylon_IsTxAlreadyPartOfDelegation 1, Send_sendDelegationResponseChan 1 None,
         Babylon_IsTxAlreadyPartOfDelegation 3, Send_sendDelegationResponseChan 3 None,
         Spawn (Go_checkForUnbondingTxSignaturesOnBabylon 2)],
        Done)"
    by (simp add: checkTransactionsStatus_def scan_exampleStore onBabylonEntry_def exampleApp_def
          exampleBabylon_def)
qed

end
